theory Spec2Isabelle
  imports Complex_Main
begin

section \<open>Data model\<close>

text \<open>
  Object ids are natural numbers.  A JavaScript \<open>Date\<close> is its time value, the number
  of milliseconds since the epoch; a missing (null) date is \<open>None\<close>.
\<close>

type_synonym objectId = nat
type_synonym jsdate = int

datatype status = Scheduled | InProgress | Completed | Cancelled

datatype role = Manager | Supervisor | Employee | Admin

datatype weekday = Sunday | Monday | Tuesday | Wednesday | Thursday | Friday | Saturday

text \<open>The paths of \<open>shiftSchema\<close> (models/Shift.js) that the modelled code reads.\<close>

record shift =
  shift_id :: objectId
  date :: "jsdate option"
  startTime :: string
  endTime :: string
  roleRequirement :: role
  skillRequirements :: "string list"
  assignedEmployeeId :: "objectId option"
  location :: string
  team :: string
  status :: status
  isOvernight :: bool
  lastModifiedBy :: "objectId option"

text \<open>
  The paths of \<open>employeeSchema\<close> (models/Employee.js).  \<open>availability\<close> holds the
  \<open>available\<close> flag of the weekdays it has an entry for.
\<close>

record employee =
  emp_id :: objectId
  role :: role
  skills :: "string list"
  availability :: "(weekday \<times> bool) list"
  maxHoursPerWeek :: rat
  isActive :: bool

datatype timeOffStatus = Pending | Approved | Rejected | TOCancelled

record timeOff =
  to_id :: objectId
  employeeId :: objectId
  startDate :: jsdate
  endDate :: jsdate
  to_status :: timeOffStatus
  totalDays :: int

record db =
  shiftColl :: "shift list"
  employeeColl :: "employee list"
  timeOffColl :: "timeOff list"

text \<open>
  The states that the write paths produce.  Ids are unique.  Every stored shift is
  assigned to a stored employee: the schema requires \<open>assignedEmployeeId\<close>, the
  controllers check that the employee exists before they store a shift, and employees
  are deactivated, never removed.
\<close>

definition storable :: "db \<Rightarrow> bool" where
  "storable d =
     (distinct (map emp_id (employeeColl d)) \<and> distinct (map shift_id (shiftColl d))
      \<and> list_all (\<lambda>s. list_ex (\<lambda>e. assignedEmployeeId s = Some (emp_id e)) (employeeColl d))
           (shiftColl d))"

section \<open>Clock times\<close>

definition digit :: "char \<Rightarrow> nat option" where
  "digit c = (if 48 \<le> (of_char c :: nat) \<and> (of_char c :: nat) \<le> 57
              then Some (of_char c - 48) else None)"

text \<open>
  \<open>clockDate t\<close> is \<open>new Date(`2000-01-01T${t}:00`)\<close>, as the number of minutes
  after local midnight of 2000-01-01; \<open>None\<close> is the Invalid Date.  A string
  \<open>HH:MM\<close> with two-digit hour (00 to 23, or 24:00) and minute 00 to 59 is the
  ECMAScript date-time format.  For every other string the language leaves the result
  to the implementation; it is taken to be the Invalid Date.
\<close>

fun clockDate :: "string \<Rightarrow> nat option" where
  "clockDate [h1, h2, c, m1, m2] =
     (if c \<noteq> CHR '':'' then None
      else case (digit h1, digit h2, digit m1, digit m2) of
        (Some a, Some b, Some x, Some y) \<Rightarrow>
          (let h = 10 * a + b; m = 10 * x + y
           in if (h \<le> 23 \<and> m \<le> 59) \<or> (h = 24 \<and> m = 0) then Some (60 * h + m) else None)
      | _ \<Rightarrow> None)"
| "clockDate _ = None"

text \<open>
  The relational operators on two \<open>Date\<close>s compare the time values; with an
  Invalid Date (NaN) on either side the comparison is false.
\<close>

definition date_lt :: "nat option \<Rightarrow> nat option \<Rightarrow> bool" where
  "date_lt a b = (case (a, b) of (Some x, Some y) \<Rightarrow> x < y | _ \<Rightarrow> False)"

text \<open>\<open>end.setDate(end.getDate() + 1)\<close>: one day later.\<close>

definition nextDay :: "nat option \<Rightarrow> nat option" where
  "nextDay d = map_option (\<lambda>m. m + 1440) d"

section \<open>Shift model (models/Shift.js)\<close>

text \<open>
  The pre-save middleware: when both times are non-empty strings, the overnight flag
  becomes \<open>end < start\<close>.
\<close>

definition preSave :: "shift \<Rightarrow> shift" where
  "preSave s =
     (if startTime s \<noteq> [] \<and> endTime s \<noteq> []
      then s\<lparr>isOvernight := date_lt (clockDate (endTime s)) (clockDate (startTime s))\<rparr>
      else s)"

text \<open>
  \<open>toDateString\<close> prints the local calendar day; the day number stands for the string.
  \<open>tz\<close> is the offset of local time from UTC in milliseconds.
\<close>

definition toDateString :: "int \<Rightarrow> jsdate \<Rightarrow> int" where
  "toDateString tz d = (d + tz) div 86400000"

text \<open>The end of the span that \<open>overlapsWith\<close> and \<open>duration\<close> compute.\<close>

definition effectiveEnd :: "shift \<Rightarrow> nat option" where
  "effectiveEnd s =
     (if isOvernight s \<and> date_lt (clockDate (endTime s)) (clockDate (startTime s))
      then nextDay (clockDate (endTime s))
      else clockDate (endTime s))"

definition overlapsWith :: "int \<Rightarrow> shift \<Rightarrow> shift \<Rightarrow> bool" where
  "overlapsWith tz this otherShift =
     (case (date this, date otherShift) of
        (Some d1, Some d2) \<Rightarrow>
          if toDateString tz d1 \<noteq> toDateString tz d2 then False
          else
            let start1 = clockDate (startTime this);
                end1 = effectiveEnd this;
                start2 = clockDate (startTime otherShift);
                end2 = effectiveEnd otherShift
            in date_lt start1 end2 \<and> date_lt start2 end1
      | _ \<Rightarrow> False)"

text \<open>
  The span that \<open>overlapsWith\<close> gives a shift (lines 179 to 190): start and end in
  minutes of the day, the end moved by 24 hours when the shift is flagged overnight and
  its end is before its start.
\<close>

definition shiftInterval :: "shift \<Rightarrow> (nat \<times> nat) option" where
  "shiftInterval s =
     (case (clockDate (startTime s), clockDate (endTime s)) of
        (Some b, Some e) \<Rightarrow> Some (b, if isOvernight s \<and> e < b then e + 1440 else e)
      | _ \<Rightarrow> None)"

text \<open>
  The span of a shift in the words of the specification (4.1): start and end in minutes
  of the day, the end moved by 24 hours when the shift is marked overnight; and its
  overlap test (4.2).
\<close>

definition specInterval :: "shift \<Rightarrow> (nat \<times> nat) option" where
  "specInterval s =
     (case (clockDate (startTime s), clockDate (endTime s)) of
        (Some b, Some e) \<Rightarrow> Some (b, if isOvernight s then e + 1440 else e)
      | _ \<Rightarrow> None)"

definition specOverlaps :: "(nat \<times> nat) \<Rightarrow> (nat \<times> nat) \<Rightarrow> bool" where
  "specOverlaps a b = (fst a < snd b \<and> fst b < snd a)"

section \<open>Employee model (models/Employee.js)\<close>

definition weekdays :: "weekday list" where
  "weekdays = [Sunday, Monday, Tuesday, Wednesday, Thursday, Friday, Saturday]"

text \<open>
  \<open>getDay\<close> is the local weekday of a date (1970-01-01 was a Thursday).  The
  \<open>dayOfWeek\<close> virtual is \<open>days[this.date.getDay()]\<close>, or \<open>'unknown'\<close>
  (\<open>None\<close>) without a date.
\<close>

definition getDay :: "int \<Rightarrow> jsdate \<Rightarrow> weekday" where
  "getDay tz d = weekdays ! nat ((toDateString tz d + 4) mod 7)"

definition dayOfWeek :: "int \<Rightarrow> shift \<Rightarrow> weekday option" where
  "dayOfWeek tz s = (case date s of None \<Rightarrow> None | Some d \<Rightarrow> Some (getDay tz d))"

definition isAvailableOnDay :: "employee \<Rightarrow> weekday option \<Rightarrow> bool" where
  "isAvailableOnDay e day =
     (case day of
        None \<Rightarrow> False
      | Some w \<Rightarrow> (case map_of (availability e) w of None \<Rightarrow> False | Some b \<Rightarrow> b))"

text \<open>\<open>requirements.some(skill => employee.skills.includes(skill))\<close>\<close>

definition hasRequiredSkills :: "string list \<Rightarrow> employee \<Rightarrow> bool" where
  "hasRequiredSkills reqs e = list_ex (\<lambda>skill. skill \<in> set (skills e)) reqs"

definition isEmployeeAvailable :: "int \<Rightarrow> shift \<Rightarrow> employee \<Rightarrow> bool" where
  "isEmployeeAvailable tz this e =
     (if \<not> isAvailableOnDay e (dayOfWeek tz this) then False
      else if skillRequirements this \<noteq> [] \<and> \<not> hasRequiredSkills (skillRequirements this) e
        then False
      else if role e \<noteq> roleRequirement this then False
      else True)"

section \<open>Queries and controllers\<close>

datatype conflictEntry =
    ShiftEntry objectId "jsdate option" string string
  | TimeOffEntry objectId jsdate jsdate

datatype error =
    BusinessLogicError nat string
  | ShiftConflictError "conflictEntry list"
  | TimeOffConflictError "conflictEntry list"
  | ValidationError
  | MongoServerError string

definition shiftEntry :: "shift \<Rightarrow> conflictEntry" where
  "shiftEntry c = ShiftEntry (shift_id c) (date c) (startTime c) (endTime c)"

definition timeOffEntry :: "timeOff \<Rightarrow> conflictEntry" where
  "timeOffEntry r = TimeOffEntry (to_id r) (startDate r) (endDate r)"

text \<open>
  The static \<open>findConflicts\<close> of models/Shift.js: a query on the employee, the date and
  the status, and on the id when \<open>excludeShiftId\<close> is given.  The parameters
  \<open>startTime\<close> and \<open>endTime\<close> do not occur in the query.
\<close>

definition findConflicts ::
  "shift list \<Rightarrow> objectId \<Rightarrow> jsdate option \<Rightarrow> string \<Rightarrow> string \<Rightarrow> objectId option \<Rightarrow> shift list"
where
  "findConflicts coll employeeId' date' startTime' endTime' excludeShiftId =
     filter (\<lambda>c. assignedEmployeeId c = Some employeeId'
                \<and> date c = date'
                \<and> (status c = Scheduled \<or> status c = InProgress)
                \<and> (case excludeShiftId of None \<Rightarrow> True | Some x \<Rightarrow> shift_id c \<noteq> x))
       coll"

text \<open>
  \<open>TimeOffRequest.findOne\<close> for an approved request of the employee whose range
  contains the date of the shift.
\<close>

definition timeOffOnDate :: "timeOff list \<Rightarrow> objectId \<Rightarrow> jsdate option \<Rightarrow> timeOff option" where
  "timeOffOnDate coll e d =
     (case d of
        None \<Rightarrow> None
      | Some x \<Rightarrow> find (\<lambda>r. employeeId r = e \<and> to_status r = Approved
                              \<and> startDate r \<le> x \<and> endDate r \<ge> x) coll)"

text \<open>
  \<open>assignShift\<close> of controllers/shiftController.js.  \<open>shiftId\<close> is
  \<open>req.params.id\<close>, \<open>assignee\<close> is \<open>req.body.assignedEmployeeId\<close> and
  \<open>requester\<close> is \<open>req.employee._id\<close>.  \<open>shift.save()\<close> runs the pre-save
  middleware and stores the document.
\<close>

definition assignShift :: "int \<Rightarrow> db \<Rightarrow> objectId \<Rightarrow> objectId \<Rightarrow> objectId \<Rightarrow> error + db" where
  "assignShift tz d shiftId assignee requester =
     (case find (\<lambda>s. shift_id s = shiftId) (shiftColl d) of
        None \<Rightarrow> Inl (BusinessLogicError 404 ''SHIFT_NOT_FOUND'')
      | Some sh \<Rightarrow>
          if status sh \<noteq> Scheduled then Inl (BusinessLogicError 400 ''SHIFT_NOT_SCHEDULED'')
          else
            (case find (\<lambda>e. emp_id e = assignee) (employeeColl d) of
               None \<Rightarrow> Inl (BusinessLogicError 400 ''EMPLOYEE_NOT_FOUND'')
             | Some emp \<Rightarrow>
                 if \<not> isActive emp then Inl (BusinessLogicError 400 ''EMPLOYEE_INACTIVE'')
                 else
                   let conflicts = findConflicts (shiftColl d) assignee (date sh)
                                     (startTime sh) (endTime sh) (Some (shift_id sh))
                   in if conflicts \<noteq> [] then Inl (ShiftConflictError (map shiftEntry conflicts))
                      else if \<not> isAvailableOnDay emp (dayOfWeek tz sh)
                        then Inl (BusinessLogicError 400 ''EMPLOYEE_UNAVAILABLE'')
                      else if skillRequirements sh \<noteq> []
                              \<and> \<not> hasRequiredSkills (skillRequirements sh) emp
                        then Inl (BusinessLogicError 400 ''INSUFFICIENT_SKILLS'')
                      else if timeOffOnDate (timeOffColl d) assignee (date sh) \<noteq> None
                        then Inl (BusinessLogicError 400 ''TIMEOFF_CONFLICT'')
                      else
                        let saved = preSave (sh\<lparr>assignedEmployeeId := Some assignee,
                                                 lastModifiedBy := Some requester\<rparr>)
                        in Inr (d\<lparr>shiftColl :=
                                    map (\<lambda>s. if shift_id s = shiftId then saved else s)
                                      (shiftColl d)\<rparr>)))"

text \<open>
  \<open>createShift\<close> of controllers/shiftController.js.  The record holds the fields of
  the request body that the checks read; the date is a valid ISO date, by the route's
  validator.  \<open>valid\<close> says whether the schema validation of \<open>save()\<close> accepts
  the new document, and \<open>newId\<close> is the id it gets.
\<close>

record shiftBody =
  b_date :: jsdate
  b_startTime :: string
  b_endTime :: string
  b_roleRequirement :: role
  b_skillRequirements :: "string list option"
  b_requiredSkills :: "string list option"
  b_assignedEmployeeId :: "objectId option"
  b_location :: string
  b_team :: string

definition createShift ::
  "bool \<Rightarrow> int \<Rightarrow> objectId \<Rightarrow> db \<Rightarrow> shiftBody \<Rightarrow> error + db" where
  "createShift valid tz newId d body =
     (let finalSkillRequirements =
            (case b_skillRequirements body of
               Some xs \<Rightarrow> xs
             | None \<Rightarrow> (case b_requiredSkills body of Some ys \<Rightarrow> ys | None \<Rightarrow> []));
          failure =
            (case b_assignedEmployeeId body of
               None \<Rightarrow> None
             | Some assignee \<Rightarrow>
                 (case find (\<lambda>e. emp_id e = assignee) (employeeColl d) of
                    None \<Rightarrow> Some (BusinessLogicError 400 ''EMPLOYEE_NOT_FOUND'')
                  | Some emp \<Rightarrow>
                      if \<not> isActive emp then Some (BusinessLogicError 400 ''EMPLOYEE_INACTIVE'')
                      else
                        let conflicts = findConflicts (shiftColl d) assignee (Some (b_date body))
                                          (b_startTime body) (b_endTime body) None
                        in if conflicts \<noteq> []
                             then Some (ShiftConflictError (map shiftEntry conflicts))
                           else if \<not> isAvailableOnDay emp (Some (getDay tz (b_date body)))
                             then Some (BusinessLogicError 400 ''EMPLOYEE_UNAVAILABLE'')
                           else if finalSkillRequirements \<noteq> []
                                   \<and> \<not> hasRequiredSkills finalSkillRequirements emp
                             then Some (BusinessLogicError 400 ''INSUFFICIENT_SKILLS'')
                           else if timeOffOnDate (timeOffColl d) assignee (Some (b_date body))
                                     \<noteq> None
                             then Some (BusinessLogicError 400 ''TIMEOFF_CONFLICT'')
                           else None))
      in case failure of
           Some e \<Rightarrow> Inl e
         | None \<Rightarrow>
             if \<not> valid then Inl ValidationError
             else Inr (d\<lparr>shiftColl := shiftColl d @
                         [preSave \<lparr>shift_id = newId, date = Some (b_date body),
                                    startTime = b_startTime body, endTime = b_endTime body,
                                    roleRequirement = b_roleRequirement body,
                                    skillRequirements = finalSkillRequirements,
                                    assignedEmployeeId = b_assignedEmployeeId body,
                                    location = b_location body, team = b_team body,
                                    status = Scheduled, isOvernight = False,
                                    lastModifiedBy = None\<rparr>]\<rparr>))"

text \<open>
  \<open>createTimeOffRequest\<close> of controllers/timeOffController.js.  \<open>now\<close> is
  \<open>new Date()\<close>, \<open>requester\<close> is \<open>req.employee._id\<close>, \<open>start\<close> and
  \<open>end\<close> are the dates of the request body (valid ISO dates, by the route's
  validator).  \<open>valid\<close> says whether the schema validation of \<open>save()\<close> accepts the
  new document, and \<open>newId\<close> is the id it gets.  The pre-save middleware of
  models/TimeOffRequest.js sets \<open>totalDays\<close>.
\<close>

definition shiftConflictsOf :: "db \<Rightarrow> objectId \<Rightarrow> jsdate \<Rightarrow> jsdate \<Rightarrow> shift list" where
  "shiftConflictsOf d requester start end' =
     filter (\<lambda>s. assignedEmployeeId s = Some requester
                \<and> (case date s of None \<Rightarrow> False | Some x \<Rightarrow> start \<le> x \<and> x \<le> end')
                \<and> (status s = Scheduled \<or> status s = InProgress))
       (shiftColl d)"

definition existingTimeOffOf :: "db \<Rightarrow> objectId \<Rightarrow> jsdate \<Rightarrow> jsdate \<Rightarrow> timeOff list" where
  "existingTimeOffOf d requester start end' =
     filter (\<lambda>r. employeeId r = requester \<and> to_status r = Approved
                \<and> startDate r \<le> end' \<and> endDate r \<ge> start)
       (timeOffColl d)"

definition createTimeOffRequest ::
  "bool \<Rightarrow> jsdate \<Rightarrow> objectId \<Rightarrow> db \<Rightarrow> objectId \<Rightarrow> jsdate \<Rightarrow> jsdate \<Rightarrow> error + db"
where
  "createTimeOffRequest valid now newId d requester start end' =
     (if start > end' then Inl (BusinessLogicError 400 ''INVALID_DATE_RANGE'')
      else if start < now then Inl (BusinessLogicError 400 ''PAST_DATE_NOT_ALLOWED'')
      else
        let shiftConflicts = shiftConflictsOf d requester start end'
        in if shiftConflicts \<noteq> [] then Inl (TimeOffConflictError (map shiftEntry shiftConflicts))
           else
             let existingTimeOff = existingTimeOffOf d requester start end'
             in if existingTimeOff \<noteq> []
                then Inl (TimeOffConflictError (map timeOffEntry existingTimeOff))
                else if \<not> valid then Inl ValidationError
                else Inr (d\<lparr>timeOffColl := timeOffColl d @
                            [\<lparr>to_id = newId, employeeId = requester, startDate = start,
                              endDate = end', to_status = Pending,
                              totalDays = \<lceil>rat_of_int (end' - start) / 86400000\<rceil> + 1\<rparr>]\<rparr>))"

section \<open>Aggregation values and operators\<close>

text \<open>
  The values of stored documents and of aggregation expressions.  \<open>Missing\<close> is the
  value of a field path that the document does not have.  Numbers are exact rationals.
\<close>

datatype val = Missing | Null | Num rat | Str string | Oid objectId | Dt jsdate | Bl bool

type_synonym doc = "(string \<times> val) list"

definition field :: "doc \<Rightarrow> string \<Rightarrow> val" where
  "field d k = (case map_of d k of None \<Rightarrow> Missing | Some v \<Rightarrow> v)"

definition isNullish :: "val \<Rightarrow> bool" where
  "isNullish v = (v = Missing \<or> v = Null)"

definition bindE :: "error + 'a \<Rightarrow> ('a \<Rightarrow> error + 'b) \<Rightarrow> error + 'b" where
  "bindE m f = (case m of Inl e \<Rightarrow> Inl e | Inr v \<Rightarrow> f v)"

fun mapE :: "('a \<Rightarrow> error + 'b) \<Rightarrow> 'a list \<Rightarrow> error + 'b list" where
  "mapE f [] = Inr []"
| "mapE f (x # xs) = bindE (f x) (\<lambda>y. bindE (mapE f xs) (\<lambda>ys. Inr (y # ys)))"

text \<open>Strings compare byte by byte, a proper prefix first.\<close>

fun str_lt :: "string \<Rightarrow> string \<Rightarrow> bool" where
  "str_lt [] [] = False"
| "str_lt [] (y # ys) = True"
| "str_lt (x # xs) [] = False"
| "str_lt (x # xs) (y # ys) =
     ((of_char x :: nat) < of_char y \<or> (x = y \<and> str_lt xs ys))"

text \<open>The comparison order of values: by type first, then within the type.\<close>

fun typeRank :: "val \<Rightarrow> nat" where
  "typeRank Missing = 0"
| "typeRank Null = 1"
| "typeRank (Num _) = 2"
| "typeRank (Str _) = 3"
| "typeRank (Oid _) = 4"
| "typeRank (Bl _) = 5"
| "typeRank (Dt _) = 6"

fun m_lt :: "val \<Rightarrow> val \<Rightarrow> bool" where
  "m_lt (Num x) (Num y) = (x < y)"
| "m_lt (Str x) (Str y) = str_lt x y"
| "m_lt (Oid x) (Oid y) = (x < y)"
| "m_lt (Bl x) (Bl y) = (\<not> x \<and> y)"
| "m_lt (Dt x) (Dt y) = (x < y)"
| "m_lt a b = (typeRank a < typeRank b)"

definition m_lte :: "val \<Rightarrow> val \<Rightarrow> bool" where
  "m_lte a b = (m_lt a b \<or> a = b)"

definition m_gt :: "val \<Rightarrow> val \<Rightarrow> bool" where
  "m_gt a b = m_lt b a"

text \<open>
  \<open>$divide\<close>, \<open>$multiply\<close>, \<open>$subtract\<close> and \<open>$ceil\<close> give null when an operand
  is null or missing; \<open>$divide\<close> by zero is an error that aborts the aggregation.
\<close>

definition m_divide :: "val \<Rightarrow> val \<Rightarrow> error + val" where
  "m_divide a b =
     (if isNullish a \<or> isNullish b then Inr Null
      else case (a, b) of
        (Num x, Num y) \<Rightarrow>
          if y = 0 then Inl (MongoServerError ''can't $divide by zero'') else Inr (Num (x / y))
      | _ \<Rightarrow> Inl (MongoServerError ''$divide only supports numeric types''))"

definition m_multiply :: "val \<Rightarrow> val \<Rightarrow> error + val" where
  "m_multiply a b =
     (if isNullish a \<or> isNullish b then Inr Null
      else case (a, b) of
        (Num x, Num y) \<Rightarrow> Inr (Num (x * y))
      | _ \<Rightarrow> Inl (MongoServerError ''$multiply only supports numeric types''))"

definition m_subtract :: "val \<Rightarrow> val \<Rightarrow> error + val" where
  "m_subtract a b =
     (if isNullish a \<or> isNullish b then Inr Null
      else case (a, b) of
        (Num x, Num y) \<Rightarrow> Inr (Num (x - y))
      | (Dt x, Dt y) \<Rightarrow> Inr (Num (rat_of_int (x - y)))
      | _ \<Rightarrow> Inl (MongoServerError ''can't $subtract''))"

definition m_ceil :: "val \<Rightarrow> error + val" where
  "m_ceil a =
     (if isNullish a then Inr Null
      else case a of
        Num x \<Rightarrow> Inr (Num (rat_of_int \<lceil>x\<rceil>))
      | _ \<Rightarrow> Inl (MongoServerError ''$ceil only supports numeric types''))"

text \<open>\<open>$max\<close> of a list of operands ignores null and missing ones.\<close>

definition m_max :: "val list \<Rightarrow> val" where
  "m_max vs = foldl (\<lambda>acc v. if isNullish v then acc
                              else if isNullish acc \<or> m_lt acc v then v else acc) Null vs"

text \<open>The accumulators \<open>$sum\<close> and \<open>$avg\<close> ignore non-numeric values.\<close>

fun numbers :: "val list \<Rightarrow> rat list" where
  "numbers [] = []"
| "numbers (Num x # vs) = x # numbers vs"
| "numbers (_ # vs) = numbers vs"

definition m_sum :: "val list \<Rightarrow> val" where
  "m_sum vs = Num (sum_list (numbers vs))"

definition m_avg :: "val list \<Rightarrow> val" where
  "m_avg vs = (if numbers vs = [] then Null
               else Num (sum_list (numbers vs) / rat_of_nat (length (numbers vs))))"

text \<open>\<open>$cond: [c, 1, 0]\<close>\<close>

definition oneIf :: "bool \<Rightarrow> val" where
  "oneIf c = (if c then Num 1 else Num 0)"

text \<open>
  \<open>$group\<close>: the documents with equal keys, one group for each key.  The server does
  not fix the order of the groups; here it is the order of first occurrence.
\<close>

function groupBy :: "('a \<Rightarrow> 'k) \<Rightarrow> 'a list \<Rightarrow> ('k \<times> 'a list) list" where
  "groupBy key [] = []"
| "groupBy key (x # xs) =
     (key x, x # filter (\<lambda>y. key y = key x) xs)
       # groupBy key (filter (\<lambda>y. key y \<noteq> key x) xs)"
  by pat_completeness auto
termination
  by (relation "measure (\<lambda>(key, xs). length xs)") (auto simp: less_Suc_eq_le)

text \<open>\<open>$sort\<close>: a stable insertion sort for the order \<open>precedes\<close>.\<close>

fun insertBy :: "('a \<Rightarrow> 'a \<Rightarrow> bool) \<Rightarrow> 'a \<Rightarrow> 'a list \<Rightarrow> 'a list" where
  "insertBy precedes x [] = [x]"
| "insertBy precedes x (y # ys) =
     (if precedes y x then y # insertBy precedes x ys else x # y # ys)"

definition sortBy :: "('a \<Rightarrow> 'a \<Rightarrow> bool) \<Rightarrow> 'a list \<Rightarrow> 'a list" where
  "sortBy precedes xs = foldr (insertBy precedes) xs []"

text \<open>Lexicographic comparison of two lists of sort keys.\<close>

fun keys_lt :: "val list \<Rightarrow> val list \<Rightarrow> bool" where
  "keys_lt (a # as) (b # bs) = (m_lt a b \<or> (a = b \<and> keys_lt as bs))"
| "keys_lt _ _ = False"

section \<open>Stored documents\<close>

fun roleName :: "role \<Rightarrow> string" where
  "roleName Manager = ''manager''"
| "roleName Supervisor = ''supervisor''"
| "roleName Employee = ''employee''"
| "roleName Admin = ''admin''"

fun statusName :: "status \<Rightarrow> string" where
  "statusName Scheduled = ''scheduled''"
| "statusName InProgress = ''in-progress''"
| "statusName Completed = ''completed''"
| "statusName Cancelled = ''cancelled''"

text \<open>
  The stored document of a shift: the paths of the schema.  \<open>duration\<close>,
  \<open>totalCost\<close>, \<open>formattedDate\<close> and \<open>dayOfWeek\<close> are virtuals of the model; they
  are computed on a hydrated document and are not stored, so an aggregation pipeline,
  which runs on the stored documents, does not see them.
\<close>

definition shiftDoc :: "shift \<Rightarrow> doc" where
  "shiftDoc s =
     [(''_id'', Oid (shift_id s)),
      (''date'', case date s of None \<Rightarrow> Null | Some d \<Rightarrow> Dt d),
      (''startTime'', Str (startTime s)),
      (''endTime'', Str (endTime s)),
      (''roleRequirement'', Str (roleName (roleRequirement s))),
      (''assignedEmployeeId'', case assignedEmployeeId s of None \<Rightarrow> Null | Some e \<Rightarrow> Oid e),
      (''location'', Str (location s)),
      (''team'', Str (team s)),
      (''status'', Str (statusName (status s))),
      (''isOvernight'', Bl (isOvernight s))]"

definition employeeDoc :: "employee \<Rightarrow> doc" where
  "employeeDoc e =
     [(''_id'', Oid (emp_id e)),
      (''role'', Str (roleName (role e))),
      (''maxHoursPerWeek'', Num (maxHoursPerWeek e)),
      (''isActive'', Bl (isActive e))]"

section \<open>Stages shared by the analytics pipelines (controllers/analyticsController.js)\<close>

text \<open>\<open>date: { $gte: start, $lte: end }\<close>\<close>

definition inRange :: "jsdate \<Rightarrow> jsdate \<Rightarrow> shift \<Rightarrow> bool" where
  "inRange start end' s = (case date s of None \<Rightarrow> False | Some d \<Rightarrow> start \<le> d \<and> d \<le> end')"

text \<open>An optional query filter; \<open>None\<close> is an absent (or empty) parameter.\<close>

definition optFilter :: "string option \<Rightarrow> string \<Rightarrow> bool" where
  "optFilter f v = (case f of None \<Rightarrow> True | Some x \<Rightarrow> v = x)"

text \<open>
  \<open>$lookup\<close> of the employee by \<open>assignedEmployeeId\<close>, then \<open>$unwind: '$employee'\<close>:
  one output document for each element of the looked-up array, and none when the array
  is empty.  The result pairs the shift document with the employee document.
\<close>

definition lookupUnwind :: "employee list \<Rightarrow> shift list \<Rightarrow> (doc \<times> doc) list" where
  "lookupUnwind emps ss =
     concat (map (\<lambda>s. map (\<lambda>e. (shiftDoc s, employeeDoc e))
                          (filter (\<lambda>e. assignedEmployeeId s = Some (emp_id e)) emps)) ss)"


text \<open>\<open>$dayOfWeek\<close>: 1 for Sunday to 7 for Saturday, in UTC.\<close>

definition m_dayOfWeek :: "val \<Rightarrow> val" where
  "m_dayOfWeek v =
     (case v of Dt d \<Rightarrow> Num (rat_of_int ((d div 86400000 + 4) mod 7 + 1)) | _ \<Rightarrow> Null)"

definition threeStatuses :: "shift \<Rightarrow> bool" where
  "threeStatuses s = (status s = Scheduled \<or> status s = InProgress \<or> status s = Completed)"

text \<open>\<open>$addFields\<close> of one field: it replaces a field of the same name.\<close>

definition setField :: "doc \<Rightarrow> string \<Rightarrow> val \<Rightarrow> doc" where
  "setField d k v = filter (\<lambda>p. fst p \<noteq> k) d @ [(k, v)]"

text \<open>\<open>$first\<close> within a group.\<close>

definition m_first :: "val list \<Rightarrow> val" where
  "m_first vs = (case vs of [] \<Rightarrow> Null | v # _ \<Rightarrow> v)"

text \<open>The truth value that \<open>$cond\<close> gives to a value.\<close>

fun truthy :: "val \<Rightarrow> bool" where
  "truthy Missing = False"
| "truthy Null = False"
| "truthy (Bl b) = b"
| "truthy (Num x) = (x \<noteq> 0)"
| "truthy _ = True"

section \<open>Coverage report (getCoverageAnalytics)\<close>










section \<open>Conflict report (getConflictAnalytics)\<close>

definition conflictMatch ::
  "jsdate \<Rightarrow> jsdate \<Rightarrow> string option \<Rightarrow> string option \<Rightarrow> shift \<Rightarrow> bool" where
  "conflictMatch start end' loc tm s =
     (inRange start end' s \<and> (status s = Scheduled \<or> status s = InProgress)
      \<and> optFilter loc (location s) \<and> optFilter tm (team s))"

text \<open>The sub-document pushed to \<open>shifts\<close>; a missing value leaves no field.\<close>

definition conflictEntryDoc :: "doc \<Rightarrow> doc" where
  "conflictEntryDoc d =
     filter (\<lambda>p. snd p \<noteq> Missing)
       [(''id'', field d ''_id''), (''date'', field d ''date''),
        (''startTime'', field d ''startTime''), (''endTime'', field d ''endTime''),
        (''duration'', field d ''duration''), (''location'', field d ''location''),
        (''team'', field d ''team'')]"

record conflictRow =
  cr_doc :: doc
  cr_shifts :: "doc list"
  cr_conflicts :: "doc list"

definition conflictGroup :: "val \<times> (doc \<times> doc) list \<Rightarrow> conflictRow" where
  "conflictGroup g =
     (let ds = map fst (snd g) in
      \<lparr>cr_doc = [(''_id'', fst g),
                 (''employeeRole'', m_first (map (\<lambda>p. field (snd p) ''role'') (snd g))),
                 (''totalShifts'', m_sum (map (\<lambda>d. Num 1) ds)),
                 (''totalHours'', m_sum (map (\<lambda>d. field d ''duration'') ds))],
       cr_shifts = map conflictEntryDoc ds,
       cr_conflicts = []\<rparr>)"

text \<open>The condition of the inner \<open>$filter\<close>: \<open>otherShift\<close> is a counterpart of \<open>shift\<close>.\<close>

definition counterpart :: "doc \<Rightarrow> doc \<Rightarrow> bool" where
  "counterpart sh other =
     (field sh ''id'' \<noteq> field other ''id''
      \<and> field sh ''date'' = field other ''date''
      \<and> ((m_lte (field sh ''startTime'') (field other ''startTime'')
           \<and> m_gt (field sh ''endTime'') (field other ''startTime''))
         \<or> (m_lte (field other ''startTime'') (field sh ''startTime'')
           \<and> m_gt (field other ''endTime'') (field sh ''startTime''))))"

definition counterparts :: "doc list \<Rightarrow> doc \<Rightarrow> nat" where
  "counterparts shifts sh = length (filter (\<lambda>other. counterpart sh other) shifts)"

definition addConflicts :: "conflictRow \<Rightarrow> conflictRow" where
  "addConflicts r =
     r\<lparr>cr_conflicts := filter (\<lambda>sh. counterparts (cr_shifts r) sh > 0) (cr_shifts r)\<rparr>"

text \<open>
  The total of the specification (4.4) for one employee: the sum, over the shifts of the
  employee, of the number of counterparts of the shift.
\<close>

definition counterpartSum :: "conflictRow \<Rightarrow> nat" where
  "counterpartSum r = sum_list (map (counterparts (cr_shifts r)) (cr_shifts r))"

text \<open>
  The conflict scan in the words of the specification (4.4, with the overlap test of 4.2):
  the shifts of an employee, the other shifts of a set that overlap a shift, and the
  shifts of a set that have at least one such counterpart.
\<close>

definition shiftsOf :: "objectId \<Rightarrow> shift list \<Rightarrow> shift list" where
  "shiftsOf e ss = filter (\<lambda>s. assignedEmployeeId s = Some e) ss"

definition overlappingOthers :: "int \<Rightarrow> shift list \<Rightarrow> shift \<Rightarrow> shift list" where
  "overlappingOthers tz ss s =
     filter (\<lambda>other. shift_id other \<noteq> shift_id s \<and> overlapsWith tz s other) ss"

definition conflictingShifts :: "int \<Rightarrow> shift list \<Rightarrow> shift list" where
  "conflictingShifts tz ss = filter (\<lambda>s. overlappingOthers tz ss s \<noteq> []) ss"

text \<open>
  A shift with a date-only date (midnight UTC, as an ISO date parses), valid times, and
  its end after its start on the same day.
\<close>

definition dayShift :: "shift \<Rightarrow> bool" where
  "dayShift s =
     (case (date s, clockDate (startTime s), clockDate (endTime s)) of
        (Some d, Some b, Some e) \<Rightarrow> d mod 86400000 = 0 \<and> b < e
      | _ \<Rightarrow> False)"

definition addConflictCount :: "conflictRow \<Rightarrow> conflictRow" where
  "addConflictCount r =
     r\<lparr>cr_doc :=
         setField (setField (cr_doc r) ''conflictCount''
                     (Num (rat_of_nat (length (cr_conflicts r)))))
           ''conflictHours'' (m_sum (map (\<lambda>c. field c ''duration'') (cr_conflicts r)))\<rparr>"

definition conflictSortKey :: "conflictRow \<Rightarrow> val list" where
  "conflictSortKey r = [field (cr_doc r) ''conflictCount'', field (cr_doc r) ''totalHours'']"

definition conflictPipeline ::
  "employee list \<Rightarrow> shift list \<Rightarrow> jsdate \<Rightarrow> jsdate \<Rightarrow> string option \<Rightarrow> string option
     \<Rightarrow> conflictRow list" where
  "conflictPipeline emps ss start end' loc tm =
     sortBy (\<lambda>a b. keys_lt (conflictSortKey b) (conflictSortKey a))
       (map addConflictCount
          (filter (\<lambda>r. cr_conflicts r \<noteq> [])
             (map addConflicts
                (filter (\<lambda>r. m_gt (field (cr_doc r) ''totalShifts'') (Num 1))
                   (map conflictGroup
                      (groupBy (\<lambda>p. field (fst p) ''assignedEmployeeId'')
                         (lookupUnwind emps (filter (conflictMatch start end' loc tm) ss))))))))"

text \<open>
  The fields of an aggregation result as JavaScript numbers: \<open>ToNumber\<close> of null is 0
  and of undefined (a missing field) is NaN, which is \<open>None\<close>.
\<close>

fun toNumber :: "val \<Rightarrow> rat option" where
  "toNumber (Num x) = Some x"
| "toNumber Null = Some 0"
| "toNumber (Bl b) = Some (if b then 1 else 0)"
| "toNumber (Dt d) = Some (rat_of_int d)"
| "toNumber _ = None"

definition js_add :: "rat option \<Rightarrow> val \<Rightarrow> rat option" where
  "js_add acc v = (case (acc, toNumber v) of (Some a, Some b) \<Rightarrow> Some (a + b) | _ \<Rightarrow> None)"

text \<open>\<open>summary.totalConflicts\<close>: the \<open>reduce\<close> over \<open>conflictData\<close>.\<close>

definition totalConflicts :: "conflictRow list \<Rightarrow> rat option" where
  "totalConflicts conflictData =
     foldl (\<lambda>sum item. js_add sum (field (cr_doc item) ''conflictCount'')) (Some 0) conflictData"

section \<open>Workload report (getWorkloadAnalytics)\<close>

definition workloadMatch ::
  "jsdate \<Rightarrow> jsdate \<Rightarrow> string option \<Rightarrow> string option \<Rightarrow> string option \<Rightarrow> shift \<Rightarrow> bool" where
  "workloadMatch start end' loc tm rl s =
     (inRange start end' s \<and> threeStatuses s
      \<and> optFilter loc (location s) \<and> optFilter tm (team s)
      \<and> optFilter rl (roleName (roleRequirement s)))"

definition workloadGroup :: "val \<times> (doc \<times> doc) list \<Rightarrow> doc" where
  "workloadGroup g =
     (let ds = map fst (snd g) in
      [(''_id'', fst g),
       (''employeeRole'', m_first (map (\<lambda>p. field (snd p) ''role'') (snd g))),
       (''maxHoursPerWeek'', m_first (map (\<lambda>p. field (snd p) ''maxHoursPerWeek'') (snd g))),
       (''totalShifts'', m_sum (map (\<lambda>d. Num 1) ds)),
       (''totalHours'', m_sum (map (\<lambda>d. field d ''duration'') ds)),
       (''averageShiftDuration'', m_avg (map (\<lambda>d. field d ''duration'') ds)),
       (''overnightShifts'', m_sum (map (\<lambda>d. oneIf (truthy (field d ''isOvernight''))) ds)),
       (''weekendShifts'',
          m_sum (map (\<lambda>d. oneIf (m_dayOfWeek (field d ''date'') = Num 1
                                  \<or> m_dayOfWeek (field d ''date'') = Num 7)) ds))])"

text \<open>
  The \<open>$addFields\<close> stage.  Both new fields are expressions over the document that
  enters the stage, which is the output of \<open>$group\<close>; \<open>'$averageHoursPerWeek'\<close> in
  the second expression is a path of that document.
\<close>

definition weeklyDivisor :: "jsdate \<Rightarrow> jsdate \<Rightarrow> error + val" where
  "weeklyDivisor start end' =
     bindE (m_subtract (Dt end') (Dt start)) (\<lambda>span.
     bindE (m_divide span (Num (1000 * 60 * 60 * 24 * 7))) (\<lambda>w. m_ceil w))"

definition workloadAddFields :: "jsdate \<Rightarrow> jsdate \<Rightarrow> doc \<Rightarrow> error + doc" where
  "workloadAddFields start end' d =
     bindE (weeklyDivisor start end') (\<lambda>weeks.
     bindE (m_divide (field d ''totalHours'') weeks) (\<lambda>avg.
     bindE (m_divide (field d ''averageHoursPerWeek'')
              (m_max [field d ''maxHoursPerWeek'', Num 1])) (\<lambda>q.
     bindE (m_multiply q (Num 100)) (\<lambda>util.
     Inr (setField (setField d ''averageHoursPerWeek'' avg) ''utilizationPercentage'' util)))))"

definition workloadPipeline ::
  "employee list \<Rightarrow> shift list \<Rightarrow> jsdate \<Rightarrow> jsdate
     \<Rightarrow> string option \<Rightarrow> string option \<Rightarrow> string option \<Rightarrow> error + doc list" where
  "workloadPipeline emps ss start end' loc tm rl =
     bindE (mapE (workloadAddFields start end')
              (map workloadGroup
                 (groupBy (\<lambda>p. field (fst p) ''assignedEmployeeId'')
                    (lookupUnwind emps (filter (workloadMatch start end' loc tm rl) ss)))))
       (\<lambda>rows. Inr (sortBy (\<lambda>a b. m_lt (field b ''totalHours'') (field a ''totalHours'')) rows))"

text \<open>The time-off pipeline: approved requests that meet the range, summed by employee.\<close>

definition timeOffData :: "timeOff list \<Rightarrow> jsdate \<Rightarrow> jsdate \<Rightarrow> (objectId \<times> rat) list" where
  "timeOffData coll start end' =
     map (\<lambda>g. (fst g, sum_list (map (\<lambda>r. rat_of_int (totalDays r)) (snd g))))
       (groupBy employeeId
          (filter (\<lambda>r. to_status r = Approved \<and> startDate r \<le> end' \<and> endDate r \<ge> start) coll))"

record workloadRow =
  wl_doc :: doc
  totalTimeOffDays :: rat
  adjustedUtilizationPercentage :: "rat option"

text \<open>
  \<open>employee.maxHoursPerWeek > 0 ? Math.min(100, (employee.averageHoursPerWeek /
  employee.maxHoursPerWeek) * 100) : 0\<close>
\<close>

definition adjustedUtilization :: "doc \<Rightarrow> rat option" where
  "adjustedUtilization e =
     (case toNumber (field e ''maxHoursPerWeek'') of
        None \<Rightarrow> Some 0
      | Some mh \<Rightarrow>
          if mh > 0
          then (case toNumber (field e ''averageHoursPerWeek'') of
                  None \<Rightarrow> None
                | Some a \<Rightarrow> Some (min 100 (a / mh * 100)))
          else Some 0)"

definition enrich :: "(objectId \<times> rat) list \<Rightarrow> doc \<Rightarrow> workloadRow" where
  "enrich tod e =
     \<lparr>wl_doc = e,
      totalTimeOffDays =
        (case find (\<lambda>t. Oid (fst t) = field e ''_id'') tod of None \<Rightarrow> 0 | Some t \<Rightarrow> snd t),
      adjustedUtilizationPercentage = adjustedUtilization e\<rparr>"

text \<open>
  \<open>getWorkloadAnalytics\<close> for a request with both dates given: the rows
  \<open>employeeWorkloads\<close> of the response, or the error passed to \<open>next\<close>.
\<close>

definition getWorkloadAnalytics ::
  "db \<Rightarrow> jsdate \<Rightarrow> jsdate \<Rightarrow> string option \<Rightarrow> string option \<Rightarrow> string option
     \<Rightarrow> error + workloadRow list" where
  "getWorkloadAnalytics d start end' loc tm rl =
     (if start > end' then Inl (BusinessLogicError 400 ''INVALID_DATE_RANGE'')
      else
        bindE (workloadPipeline (employeeColl d) (shiftColl d) start end' loc tm rl)
          (\<lambda>workloadData.
             Inr (map (enrich (timeOffData (timeOffColl d) start end')) workloadData)))"

section \<open>Example data\<close>

text \<open>2024-01-15T00:00:00Z is 1705276800000, a Monday.\<close>

definition exShift :: "objectId \<Rightarrow> jsdate \<Rightarrow> string \<Rightarrow> string \<Rightarrow> objectId option \<Rightarrow> shift" where
  "exShift i d st et e =
     \<lparr>shift_id = i, date = Some d, startTime = st, endTime = et, roleRequirement = Manager,
      skillRequirements = [''A''], assignedEmployeeId = e, location = ''HQ'', team = ''T'',
      status = Scheduled, isOvernight = False, lastModifiedBy = None\<rparr>"

definition exEmployee :: "objectId \<Rightarrow> rat \<Rightarrow> employee" where
  "exEmployee i mh =
     \<lparr>emp_id = i, role = Employee, skills = [''A''],
      availability = [(Monday, True), (Tuesday, True), (Wednesday, True), (Thursday, True),
        (Friday, True), (Saturday, False), (Sunday, False)],
      maxHoursPerWeek = mh,
      isActive = True\<rparr>"

definition exDb :: "shift list \<Rightarrow> db" where
  "exDb ss = \<lparr>shiftColl = ss, employeeColl = [exEmployee 7 40], timeOffColl = []\<rparr>"

section \<open>Basic facts\<close>

lemma date_lt_Some: "date_lt (Some x) (Some y) = (x < y)"
  by (simp add: date_lt_def)

lemma clockDate_nonempty: "clockDate t = Some m \<Longrightarrow> t \<noteq> []"
  by auto

lemma preSave_fields:
  "date (preSave s) = date s" "startTime (preSave s) = startTime s"
  "endTime (preSave s) = endTime s"
  by (simp_all add: preSave_def)

lemma preSave_flag:
  assumes "clockDate (startTime s) = Some b" and "clockDate (endTime s) = Some e"
  shows "isOvernight (preSave s) = (e < b)"
  using assms clockDate_nonempty [OF assms(1)] clockDate_nonempty [OF assms(2)]
  by (simp add: preSave_def date_lt_Some)

lemma overlapsWith_commute: "overlapsWith tz a b = overlapsWith tz b a"
  by (auto simp: overlapsWith_def Let_def split: option.splits)

lemma hasRequiredSkills_iff:
  "hasRequiredSkills reqs e \<longleftrightarrow> set reqs \<inter> set (skills e) \<noteq> {}"
  by (auto simp: hasRequiredSkills_def list_ex_iff)

lemma set_insertBy: "set (insertBy p x xs) = insert x (set xs)"
  by (induction xs) auto

lemma set_sortBy: "set (sortBy p xs) = set xs"
  unfolding sortBy_def by (induction xs) (auto simp: set_insertBy)

lemma field_setField: "field (setField d k v) k' = (if k' = k then v else field d k')"
proof -
  have "map_of (filter (\<lambda>p. fst p \<noteq> k) d) k = None"
    by (induction d) auto
  moreover have "k' \<noteq> k \<Longrightarrow> map_of (filter (\<lambda>p. fst p \<noteq> k) d) k' = map_of d k'"
    by (induction d) auto
  ultimately show ?thesis
    by (auto simp: field_def setField_def map_add_def split: option.splits)
qed

lemma field_Cons: "field ((k, v) # d) k' = (if k' = k then v else field d k')"
  by (simp add: field_def)


lemma filter_unique:
  assumes "distinct (map f xs)" and "x \<in> set xs"
  shows "filter (\<lambda>y. f y = f x) xs = [x]"
  using assms
proof (induction xs)
  case Nil
  then show ?case by simp
next
  case (Cons a xs)
  show ?case
  proof (cases "a = x")
    case True
    from Cons.prems(1) have "f a \<notin> f ` set xs" by simp
    then have "\<forall>y \<in> set xs. f y \<noteq> f a" by (metis image_eqI)
    with True have "\<forall>y \<in> set xs. f y \<noteq> f x" by simp
    then have "filter (\<lambda>y. f y = f x) xs = []" by (simp add: filter_empty_conv)
    with True show ?thesis by simp
  next
    case False
    with Cons.prems have "x \<in> set xs" and "f a \<noteq> f x" by auto
    with Cons show ?thesis by simp
  qed
qed

lemma groupBy_key_mem:
  "(k, ms) \<in> set (groupBy key xs) \<Longrightarrow> k \<in> key ` set xs"
proof (induction key xs arbitrary: k ms rule: groupBy.induct)
  case (1 key)
  then show ?case by simp
next
  case (2 key x xs)
  then show ?case by (auto dest!: "2.IH")
qed

lemma groupBy_filter:
  "(k, ms) \<in> set (groupBy key xs) \<Longrightarrow> ms = filter (\<lambda>x. key x = k) xs"
proof (induction key xs arbitrary: k ms rule: groupBy.induct)
  case (1 key)
  then show ?case by simp
next
  case (2 key x xs)
  from "2.prems" consider "k = key x" "ms = x # filter (\<lambda>y. key y = key x) xs"
    | "(k, ms) \<in> set (groupBy key (filter (\<lambda>y. key y \<noteq> key x) xs))"
    by auto
  then show ?case
  proof cases
    case 1
    then show ?thesis by simp
  next
    case 2
    from groupBy_key_mem [OF 2] have ne: "k \<noteq> key x" by auto
    from "2.IH" [OF 2] have "ms = filter (\<lambda>y. key y = k) (filter (\<lambda>y. key y \<noteq> key x) xs)" .
    also have "\<dots> = filter (\<lambda>y. key y = k) xs"
      using ne by (induction xs) auto
    finally show ?thesis using ne by simp
  qed
qed




lemma m_sum_ones: "m_sum (map (\<lambda>d. Num 1) ds) = Num (rat_of_nat (length ds))"
  by (induction ds) (auto simp: m_sum_def)



lemma groupBy_complete:
  "k \<in> key ` set xs \<Longrightarrow> \<exists>ms. (k, ms) \<in> set (groupBy key xs)"
proof (induction key xs rule: groupBy.induct)
  case (1 key)
  then show ?case by simp
next
  case (2 key x xs)
  show ?case
  proof (cases "k = key x")
    case True
    then show ?thesis by auto
  next
    case False
    with "2.prems" have "k \<in> key ` set (filter (\<lambda>y. key y \<noteq> key x) xs)" by auto
    from "2.IH" [OF this] show ?thesis by auto
  qed
qed

lemma two_members:
  assumes "s \<in> set S" and "other \<in> set S" and "s \<noteq> other"
  shows "2 \<le> length S"
proof -
  from assms have "{s, other} \<subseteq> set S" by simp
  then have "card {s, other} \<le> card (set S)" by (intro card_mono) auto
  with assms(3) have "2 \<le> card (set S)" by simp
  with card_length [of S] show ?thesis by simp
qed

section \<open>Overnight classification\<close>

text \<open>
  C5 as the specification states it fails: a shift saved with equal start and end time
  (09:00, minute 540) is not flagged overnight, although its end is not after its start.
\<close>

theorem preSave_equal_times_counterexample:
  "clockDate ''09:00'' = Some 540
   \<and> \<not> (isOvernight (preSave (exShift 1 1705276800000 ''09:00'' ''09:00'' (Some 7)))
          \<longleftrightarrow> (540::nat) \<le> 540)"
  by code_simp

text \<open>
  C5, amended: for a saved shift with valid HH:MM start and end times the stored
  overnight flag is true exactly when the end time of day is strictly before the start
  time of day; with equal times the flag is false.
\<close>

theorem preSave_isOvernight_strict:
  assumes "clockDate (startTime s) = Some b" and "clockDate (endTime s) = Some e"
  shows "(isOvernight (preSave s) \<longleftrightarrow> e < b) \<and> (e = b \<longrightarrow> \<not> isOvernight (preSave s))"
  using preSave_flag [OF assms] by simp

theorem preSave_isOvernight_strict_witness:
  "isOvernight (preSave (exShift 1 1705276800000 ''22:00'' ''06:00'' (Some 7)))
   \<and> \<not> isOvernight (preSave (exShift 2 1705276800000 ''09:00'' ''17:00'' (Some 7)))"
proof -
  have b: "clockDate (startTime (exShift 1 1705276800000 ''22:00'' ''06:00'' (Some 7))) = Some 1320"
    by code_simp
  have e: "clockDate (endTime (exShift 1 1705276800000 ''22:00'' ''06:00'' (Some 7))) = Some 360"
    by code_simp
  have b': "clockDate (startTime (exShift 2 1705276800000 ''09:00'' ''17:00'' (Some 7))) = Some 540"
    by code_simp
  have e': "clockDate (endTime (exShift 2 1705276800000 ''09:00'' ''17:00'' (Some 7))) = Some 1020"
    by code_simp
  show ?thesis
    using preSave_isOvernight_strict [OF b e] preSave_isOvernight_strict [OF b' e'] by simp
qed

section \<open>The overlap test\<close>

lemma shiftInterval_effectiveEnd:
  assumes "shiftInterval a = Some ia"
  shows "clockDate (startTime a) = Some (fst ia) \<and> effectiveEnd a = Some (snd ia)"
  using assms
  by (auto simp: shiftInterval_def effectiveEnd_def date_lt_Some nextDay_def
           split: option.splits)

text \<open>
  C2 as the specification states it fails: a saved shift from 09:00 to 09:00 does not
  overlap a second saved shift with the identical interval on the same date.
\<close>

theorem overlapsWith_identical_counterexample:
  "specInterval (preSave (exShift 1 1705276800000 ''09:00'' ''09:00'' (Some 7)))
     = specInterval (preSave (exShift 2 1705276800000 ''09:00'' ''09:00'' (Some 7)))
   \<and> \<not> overlapsWith 0 (preSave (exShift 1 1705276800000 ''09:00'' ''09:00'' (Some 7)))
          (preSave (exShift 2 1705276800000 ''09:00'' ''09:00'' (Some 7)))"
  by code_simp

text \<open>
  C2, amended: for all shift records \<open>a\<close> and \<open>b\<close> with valid times on the same
  calendar date, with the minute-of-day intervals that add 24 hours to the end of a shift
  that is flagged overnight and ends before it starts, \<open>overlapsWith\<close> is true iff
  \<open>a.start < b.end\<close> and \<open>b.start < a.end\<close>; it is symmetric; it is false whenever
  \<open>a.end \<le> b.start\<close>; and for two shifts with identical intervals it is true exactly
  when the interval is not empty.  When the flag of \<open>a\<close> is as the pre-save hook sets
  it, the interval of \<open>a\<close> is the one of the specification (24 hours added to an
  overnight end), and for a start before 24:00 it is empty exactly when the start and end
  times are equal.
\<close>

theorem overlapsWith_half_open:
  assumes "date a = Some da" and "date b = Some db"
    and "toDateString tz da = toDateString tz db"
    and "shiftInterval a = Some ia" and "shiftInterval b = Some ib"
  shows "(overlapsWith tz a b \<longleftrightarrow> specOverlaps ia ib)
       \<and> overlapsWith tz a b = overlapsWith tz b a
       \<and> (snd ia \<le> fst ib \<longrightarrow> \<not> overlapsWith tz a b)
       \<and> (ia = ib \<longrightarrow> (overlapsWith tz a b \<longleftrightarrow> fst ia < snd ia))
       \<and> (isOvernight a = date_lt (clockDate (endTime a)) (clockDate (startTime a)) \<longrightarrow>
            specInterval a = Some ia
            \<and> (fst ia < 1440 \<longrightarrow>
                 (fst ia < snd ia \<longleftrightarrow> clockDate (startTime a) \<noteq> clockDate (endTime a))))"
proof -
  from shiftInterval_effectiveEnd [OF assms(4)]
  have sa: "clockDate (startTime a) = Some (fst ia)" and ea: "effectiveEnd a = Some (snd ia)"
    by simp_all
  from shiftInterval_effectiveEnd [OF assms(5)]
  have sb: "clockDate (startTime b) = Some (fst ib)" and eb: "effectiveEnd b = Some (snd ib)"
    by simp_all
  have main: "overlapsWith tz a b \<longleftrightarrow> specOverlaps ia ib"
    using assms(1-3) sa sb ea eb
    by (simp add: overlapsWith_def Let_def date_lt_Some specOverlaps_def)
  have saved: "isOvernight a = date_lt (clockDate (endTime a)) (clockDate (startTime a)) \<longrightarrow>
            specInterval a = Some ia
            \<and> (fst ia < 1440 \<longrightarrow>
                 (fst ia < snd ia \<longleftrightarrow> clockDate (startTime a) \<noteq> clockDate (endTime a)))"
    using assms(4)
    by (auto simp: shiftInterval_def specInterval_def date_lt_Some split: option.splits)
  show ?thesis
    using main saved overlapsWith_commute [of tz a b] by (auto simp: specOverlaps_def)
qed

theorem overlapsWith_half_open_witness:
  "overlapsWith 0 (preSave (exShift 1 1705276800000 ''22:00'' ''06:00'' (Some 7)))
     (preSave (exShift 2 1705276800000 ''23:00'' ''23:30'' (Some 7)))
   \<and> overlapsWith 0 (preSave (exShift 3 1705276800000 ''12:00'' ''12:00'' (Some 7)))
     (preSave (exShift 4 1705276800000 ''09:00'' ''17:00'' (Some 7)))
   \<and> specOverlaps (1320, 1800) (1380, 1410) \<and> specOverlaps (720, 720) (540, 1020)"
proof -
  have d1: "date (preSave (exShift 1 1705276800000 ''22:00'' ''06:00'' (Some 7)))
              = Some 1705276800000"
    by code_simp
  have d2: "date (preSave (exShift 2 1705276800000 ''23:00'' ''23:30'' (Some 7)))
              = Some 1705276800000"
    by code_simp
  have d3: "date (preSave (exShift 3 1705276800000 ''12:00'' ''12:00'' (Some 7)))
              = Some 1705276800000"
    by code_simp
  have d4: "date (preSave (exShift 4 1705276800000 ''09:00'' ''17:00'' (Some 7)))
              = Some 1705276800000"
    by code_simp
  have i1: "shiftInterval (preSave (exShift 1 1705276800000 ''22:00'' ''06:00'' (Some 7)))
              = Some (1320, 1800)"
    by code_simp
  have i2: "shiftInterval (preSave (exShift 2 1705276800000 ''23:00'' ''23:30'' (Some 7)))
              = Some (1380, 1410)"
    by code_simp
  have i3: "shiftInterval (preSave (exShift 3 1705276800000 ''12:00'' ''12:00'' (Some 7)))
              = Some (720, 720)"
    by code_simp
  have i4: "shiftInterval (preSave (exShift 4 1705276800000 ''09:00'' ''17:00'' (Some 7)))
              = Some (540, 1020)"
    by code_simp
  have ov: "specOverlaps (1320, 1800) (1380, 1410)" "specOverlaps (720, 720) (540, 1020)"
    by (simp_all add: specOverlaps_def)
  show ?thesis
    using overlapsWith_half_open [OF d1 d2 refl i1 i2]
      overlapsWith_half_open [OF d3 d4 refl i3 i4] ov
    by simp
qed

section \<open>Assignment\<close>

text \<open>The query of \<open>findConflicts\<close> is the same for every proposed interval.\<close>

lemma findConflicts_any_times:
  "findConflicts coll e d st et x = findConflicts coll e d st' et' x"
  by (simp add: findConflicts_def)

text \<open>
  C1: employee 7 has the scheduled shift 1 on 2024-01-15 from 09:00 to 17:00.  A shift
  on that date from 17:00 to 20:00 does not overlap it, yet \<open>findConflicts\<close> returns
  shift 1 for the proposed interval: assigning such a shift to the employee, and
  creating one for the employee, are both rejected with a conflict that lists shift 1.
\<close>

theorem assignShift_back_to_back_rejected:
  "\<not> overlapsWith 0 (exShift 2 1705276800000 ''17:00'' ''20:00'' None)
        (exShift 1 1705276800000 ''09:00'' ''17:00'' (Some 7))
   \<and> findConflicts [exShift 1 1705276800000 ''09:00'' ''17:00'' (Some 7),
                    exShift 2 1705276800000 ''17:00'' ''20:00'' None]
        7 (Some 1705276800000) ''17:00'' ''20:00'' (Some 2)
      = [exShift 1 1705276800000 ''09:00'' ''17:00'' (Some 7)]
   \<and> assignShift 0 (exDb [exShift 1 1705276800000 ''09:00'' ''17:00'' (Some 7),
                           exShift 2 1705276800000 ''17:00'' ''20:00'' None]) 2 7 9
      = Inl (ShiftConflictError [ShiftEntry 1 (Some 1705276800000) ''09:00'' ''17:00''])
   \<and> createShift True 0 3 (exDb [exShift 1 1705276800000 ''09:00'' ''17:00'' (Some 7)])
        \<lparr>b_date = 1705276800000, b_startTime = ''17:00'', b_endTime = ''20:00'',
         b_roleRequirement = Employee, b_skillRequirements = Some [''A''],
         b_requiredSkills = None, b_assignedEmployeeId = Some 7,
         b_location = ''HQ'', b_team = ''T''\<rparr>
      = Inl (ShiftConflictError [ShiftEntry 1 (Some 1705276800000) ''09:00'' ''17:00''])"
  by code_simp

text \<open>
  C6: shift 2 requires the role manager; employee 7 has the role employee, is active,
  available on Mondays, holds the required skill and has no other shift.
  \<open>isEmployeeAvailable\<close> refuses the employee for the role, and \<open>assignShift\<close>
  assigns the shift.
\<close>

theorem assignShift_role_mismatch_accepted:
  "role (exEmployee 7 40) \<noteq> roleRequirement (exShift 2 1705276800000 ''17:00'' ''20:00'' None)
   \<and> \<not> isEmployeeAvailable 0 (exShift 2 1705276800000 ''17:00'' ''20:00'' None)
          (exEmployee 7 40)
   \<and> assignShift 0 (exDb [exShift 2 1705276800000 ''17:00'' ''20:00'' None]) 2 7 9
      = Inr (exDb [(exShift 2 1705276800000 ''17:00'' ''20:00'' (Some 7))
                      \<lparr>lastModifiedBy := Some 9\<rparr>])"
  by code_simp

text \<open>
  C7: when the checks before it pass, \<open>assignShift\<close> fails with
  \<open>INSUFFICIENT_SKILLS\<close> iff the shift requires at least one skill and the employee
  holds none of the required skills.
\<close>

theorem assignShift_skill_check:
  assumes "find (\<lambda>s. shift_id s = shiftId) (shiftColl d) = Some sh"
    and "status sh = Scheduled"
    and "find (\<lambda>e. emp_id e = assignee) (employeeColl d) = Some emp"
    and "isActive emp"
    and "findConflicts (shiftColl d) assignee (date sh) (startTime sh) (endTime sh)
           (Some (shift_id sh)) = []"
    and "isAvailableOnDay emp (dayOfWeek tz sh)"
  shows "assignShift tz d shiftId assignee requester
           = Inl (BusinessLogicError 400 ''INSUFFICIENT_SKILLS'')
         \<longleftrightarrow> skillRequirements sh \<noteq> [] \<and> set (skillRequirements sh) \<inter> set (skills emp) = {}"
  using assms by (simp add: assignShift_def Let_def hasRequiredSkills_iff)

theorem assignShift_skill_check_witness:
  "assignShift 0
     (exDb [(exShift 2 1705276800000 ''17:00'' ''20:00'' None)
              \<lparr>skillRequirements := [''B'', ''A'']\<rparr>]) 2 7 9
     \<noteq> Inl (BusinessLogicError 400 ''INSUFFICIENT_SKILLS'')
   \<and> assignShift 0
     (exDb [(exShift 2 1705276800000 ''17:00'' ''20:00'' None)
              \<lparr>skillRequirements := [''B'', ''C'']\<rparr>]) 2 7 9
     = Inl (BusinessLogicError 400 ''INSUFFICIENT_SKILLS'')"
proof -
  let ?s1 = "(exShift 2 1705276800000 ''17:00'' ''20:00'' None)\<lparr>skillRequirements := [''B'', ''A'']\<rparr>"
  let ?s2 = "(exShift 2 1705276800000 ''17:00'' ''20:00'' None)\<lparr>skillRequirements := [''B'', ''C'']\<rparr>"
  have f1: "find (\<lambda>s. shift_id s = 2) (shiftColl (exDb [?s1])) = Some ?s1" by code_simp
  have f2: "find (\<lambda>s. shift_id s = 2) (shiftColl (exDb [?s2])) = Some ?s2" by code_simp
  have st1: "status ?s1 = Scheduled" by code_simp
  have st2: "status ?s2 = Scheduled" by code_simp
  have e1: "find (\<lambda>e. emp_id e = 7) (employeeColl (exDb [?s1])) = Some (exEmployee 7 40)"
    by code_simp
  have e2: "find (\<lambda>e. emp_id e = 7) (employeeColl (exDb [?s2])) = Some (exEmployee 7 40)"
    by code_simp
  have act: "isActive (exEmployee 7 40)" by code_simp
  have c1: "findConflicts (shiftColl (exDb [?s1])) 7 (date ?s1) (startTime ?s1) (endTime ?s1)
              (Some (shift_id ?s1)) = []" by code_simp
  have c2: "findConflicts (shiftColl (exDb [?s2])) 7 (date ?s2) (startTime ?s2) (endTime ?s2)
              (Some (shift_id ?s2)) = []" by code_simp
  have a1: "isAvailableOnDay (exEmployee 7 40) (dayOfWeek 0 ?s1)" by code_simp
  have a2: "isAvailableOnDay (exEmployee 7 40) (dayOfWeek 0 ?s2)" by code_simp
  have k1: "\<not> (skillRequirements ?s1 \<noteq> []
              \<and> set (skillRequirements ?s1) \<inter> set (skills (exEmployee 7 40)) = {})"
    by (simp add: exShift_def exEmployee_def)
  have k2: "skillRequirements ?s2 \<noteq> []
              \<and> set (skillRequirements ?s2) \<inter> set (skills (exEmployee 7 40)) = {}"
    by (simp add: exShift_def exEmployee_def)
  show ?thesis
    using assignShift_skill_check [OF f1 st1 e1 act c1 a1, of 9]
      assignShift_skill_check [OF f2 st2 e2 act c2 a2, of 9] k1 k2
    by blast
qed

lemma assignShift_insufficient_only_if:
  assumes "assignShift tz d shiftId assignee requester
             = Inl (BusinessLogicError 400 ''INSUFFICIENT_SKILLS'')"
  shows "\<exists>sh emp. find (\<lambda>s. shift_id s = shiftId) (shiftColl d) = Some sh
           \<and> find (\<lambda>e. emp_id e = assignee) (employeeColl d) = Some emp
           \<and> skillRequirements sh \<noteq> []
           \<and> set (skillRequirements sh) \<inter> set (skills emp) = {}"
  using assms
  by (auto simp: assignShift_def Let_def hasRequiredSkills_iff
           split: option.splits if_splits)

section \<open>Time-off requests\<close>

text \<open>
  C10 as stated fails: a request whose start date is already past is refused with
  \<open>PAST_DATE_NOT_ALLOWED\<close>, not with a conflict error, although the requester has a
  scheduled shift inside the requested range.
\<close>

theorem createTimeOffRequest_past_start_counterexample:
  "shiftConflictsOf (exDb [exShift 1 1705363200000 ''09:00'' ''17:00'' (Some 7)])
       7 1705276800000 1705449600000
     = [exShift 1 1705363200000 ''09:00'' ''17:00'' (Some 7)]
   \<and> createTimeOffRequest True 1705300000000 50
       (exDb [exShift 1 1705363200000 ''09:00'' ''17:00'' (Some 7)])
       7 1705276800000 1705449600000
     = Inl (BusinessLogicError 400 ''PAST_DATE_NOT_ALLOWED'')"
  by code_simp

text \<open>
  C10, amended: whenever the requester has a shift with status scheduled or in-progress
  whose date lies in the requested inclusive range, the operation fails and stores no
  record; when moreover the start date is not before the current time, it fails with the
  conflict error that lists exactly those shifts.  A record is stored only when there is
  no such shift and no approved time off of the requester meets the range; then the
  shifts are unchanged and exactly one pending request for the range is added.
\<close>

theorem createTimeOffRequest_guard:
  "(shiftConflictsOf d r start end' \<noteq> [] \<longrightarrow>
      (\<exists>e. createTimeOffRequest valid now newId d r start end' = Inl e))
   \<and> (shiftConflictsOf d r start end' \<noteq> [] \<and> now \<le> start \<longrightarrow>
        createTimeOffRequest valid now newId d r start end'
          = Inl (TimeOffConflictError (map shiftEntry (shiftConflictsOf d r start end'))))
   \<and> (\<forall>d'. createTimeOffRequest valid now newId d r start end' = Inr d' \<longrightarrow>
        shiftConflictsOf d r start end' = [] \<and> existingTimeOffOf d r start end' = []
        \<and> shiftColl d' = shiftColl d
        \<and> (\<exists>t. timeOffColl d' = timeOffColl d @ [t] \<and> employeeId t = r
                \<and> startDate t = start \<and> endDate t = end' \<and> to_status t = Pending))"
proof -
  have nonempty_le: "shiftConflictsOf d r start end' \<noteq> [] \<Longrightarrow> start \<le> end'"
    by (auto simp: shiftConflictsOf_def filter_empty_conv split: option.splits)
  show ?thesis
    using nonempty_le
    by (auto simp: createTimeOffRequest_def Let_def split: if_splits)
qed

theorem createTimeOffRequest_guard_witness:
  "createTimeOffRequest True 1705200000000 50
       (exDb [exShift 1 1705363200000 ''09:00'' ''17:00'' (Some 7)])
       7 1705276800000 1705449600000
     = Inl (TimeOffConflictError [ShiftEntry 1 (Some 1705363200000) ''09:00'' ''17:00''])"
proof -
  have c: "shiftConflictsOf (exDb [exShift 1 1705363200000 ''09:00'' ''17:00'' (Some 7)])
             7 1705276800000 1705449600000
           = [exShift 1 1705363200000 ''09:00'' ''17:00'' (Some 7)]"
    by code_simp
  have n: "(1705200000000::int) \<le> 1705276800000" by simp
  have m: "map shiftEntry [exShift 1 1705363200000 ''09:00'' ''17:00'' (Some 7)]
           = [ShiftEntry 1 (Some 1705363200000) ''09:00'' ''17:00'']"
    by code_simp
  show ?thesis
    using createTimeOffRequest_guard
            [of "exDb [exShift 1 1705363200000 ''09:00'' ''17:00'' (Some 7)]"
                7 1705276800000 1705449600000 True 1705200000000 50] c n m
    by simp
qed

section \<open>Coverage report\<close>



lemma lookupUnwind_storable:
  assumes "storable d" and "set ss \<subseteq> set (shiftColl d)"
  shows "map fst (lookupUnwind (employeeColl d) ss) = map shiftDoc ss"
  using assms(2)
proof (induction ss)
  case Nil
  then show ?case by (simp add: lookupUnwind_def)
next
  case (Cons s ss)
  then have "s \<in> set (shiftColl d)" by simp
  with assms(1) obtain e where e: "e \<in> set (employeeColl d)"
    and a: "assignedEmployeeId s = Some (emp_id e)"
    by (auto simp: storable_def list_all_iff list_ex_iff)
  from assms(1) have "distinct (map emp_id (employeeColl d))"
    by (simp add: storable_def)
  from filter_unique [OF this e]
  have "filter (\<lambda>y. assignedEmployeeId s = Some (emp_id y)) (employeeColl d) = [e]"
    using a by (simp add: eq_commute)
  moreover from Cons have "map fst (lookupUnwind (employeeColl d) ss) = map shiftDoc ss"
    by simp
  ultimately show ?case
    by (simp add: lookupUnwind_def)
qed







section \<open>Conflict report\<close>

lemma count_pos_le_sum:
  "length (filter (\<lambda>x. 0 < f x) xs) \<le> sum_list (map f xs)" for f :: "'a \<Rightarrow> nat"
  by (induction xs) auto

lemma foldl_js_add:
  assumes "\<forall>r \<in> set rows.
             field (cr_doc r) ''conflictCount'' = Num (rat_of_nat (length (cr_conflicts r)))"
  shows "foldl (\<lambda>sum item. js_add sum (field (cr_doc item) ''conflictCount'')) (Some a) rows
           = Some (a + rat_of_nat (sum_list (map (\<lambda>r. length (cr_conflicts r)) rows)))"
  using assms by (induction rows arbitrary: a) (auto simp: js_add_def algebra_simps)

lemma digit_SomeD: "digit c = Some a \<Longrightarrow> of_char c = a + 48 \<and> a \<le> 9"
  by (auto simp: digit_def split: if_splits)

lemma clockDate_SomeE:
  assumes "clockDate t = Some x"
  obtains h1 h2 m1 m2 a b c d where "t = [h1, h2, CHR '':'', m1, m2]"
    and "of_char h1 = a + (48::nat)" and "of_char h2 = b + (48::nat)"
    and "of_char m1 = c + (48::nat)" and "of_char m2 = d + (48::nat)"
    and "b \<le> 9" and "d \<le> 9" and "10 * c + d \<le> 59"
    and "x = 600 * a + 60 * b + 10 * c + d"
proof (cases t rule: clockDate.cases)
  case (1 h1 h2 cc m1 m2)
  with assms obtain a b c d where cc: "cc = CHR '':''"
    and dg: "digit h1 = Some a" "digit h2 = Some b" "digit m1 = Some c" "digit m2 = Some d"
    and ok: "(10 * a + b \<le> 23 \<and> 10 * c + d \<le> 59) \<or> (10 * a + b = 24 \<and> 10 * c + d = 0)"
    and x: "x = 60 * (10 * a + b) + (10 * c + d)"
    by (auto simp: Let_def split: if_splits option.splits)
  from ok have m: "10 * c + d \<le> 59" by auto
  from dg have "of_char h1 = a + (48::nat)" "of_char h2 = b + (48::nat)"
    "of_char m1 = c + (48::nat)" "of_char m2 = d + (48::nat)" "b \<le> 9" "d \<le> 9"
    by (auto dest: digit_SomeD)
  with 1 cc m x show ?thesis by (intro that [of h1 h2 m1 m2 a b c d]) auto
qed (use assms in auto)

lemma of_char_eq_nat: "(c = c') = ((of_char c :: nat) = of_char c')"
  by simp

lemma str_lt_clock:
  assumes "clockDate s = Some x" and "clockDate t = Some y"
  shows "str_lt s t \<longleftrightarrow> x < y"
proof -
  from assms(1) obtain h1 h2 m1 m2 a b c d where s: "s = [h1, h2, CHR '':'', m1, m2]"
    and 1: "of_char h1 = a + (48::nat)" "of_char h2 = b + (48::nat)"
      "of_char m1 = c + (48::nat)" "of_char m2 = d + (48::nat)"
      "b \<le> 9" "d \<le> 9" "10 * c + d \<le> 59" "x = 600 * a + 60 * b + 10 * c + d"
    by (rule clockDate_SomeE)
  from assms(2) obtain h1' h2' m1' m2' a' b' c' d' where t: "t = [h1', h2', CHR '':'', m1', m2']"
    and 2: "of_char h1' = a' + (48::nat)" "of_char h2' = b' + (48::nat)"
      "of_char m1' = c' + (48::nat)" "of_char m2' = d' + (48::nat)"
      "b' \<le> 9" "d' \<le> 9" "10 * c' + d' \<le> 59" "y = 600 * a' + 60 * b' + 10 * c' + d'"
    by (rule clockDate_SomeE)
  have "str_lt s t \<longleftrightarrow>
          a < a' \<or> (a = a' \<and> (b < b' \<or> (b = b' \<and> (c < c' \<or> (c = c' \<and> d < d')))))"
    unfolding s t using 1(1-4) 2(1-4)
    by (simp add: of_char_eq_nat [of h1] of_char_eq_nat [of h2]
                  of_char_eq_nat [of m1] of_char_eq_nat [of m2])
  also have "\<dots> \<longleftrightarrow> x < y"
    using 1(5-8) 2(5-8) by auto
  finally show ?thesis .
qed

lemma clock_eq:
  assumes "clockDate s = Some x" and "clockDate t = Some y"
  shows "s = t \<longleftrightarrow> x = y"
proof -
  from assms(1) obtain h1 h2 m1 m2 a b c d where s: "s = [h1, h2, CHR '':'', m1, m2]"
    and 1: "of_char h1 = a + (48::nat)" "of_char h2 = b + (48::nat)"
      "of_char m1 = c + (48::nat)" "of_char m2 = d + (48::nat)"
      "b \<le> 9" "d \<le> 9" "10 * c + d \<le> 59" "x = 600 * a + 60 * b + 10 * c + d"
    by (rule clockDate_SomeE)
  from assms(2) obtain h1' h2' m1' m2' a' b' c' d' where t: "t = [h1', h2', CHR '':'', m1', m2']"
    and 2: "of_char h1' = a' + (48::nat)" "of_char h2' = b' + (48::nat)"
      "of_char m1' = c' + (48::nat)" "of_char m2' = d' + (48::nat)"
      "b' \<le> 9" "d' \<le> 9" "10 * c' + d' \<le> 59" "y = 600 * a' + 60 * b' + 10 * c' + d'"
    by (rule clockDate_SomeE)
  have "s = t \<longleftrightarrow> a = a' \<and> b = b' \<and> c = c' \<and> d = d'"
    unfolding s t using 1(1-4) 2(1-4)
    by (simp add: of_char_eq_nat [of h1] of_char_eq_nat [of h2]
                  of_char_eq_nat [of m1] of_char_eq_nat [of m2])
  also have "\<dots> \<longleftrightarrow> 600 * a + 60 * b + 10 * c + d = 600 * a' + 60 * b' + 10 * c' + d'"
  proof
    assume E: "600 * a + 60 * b + 10 * c + d = 600 * a' + 60 * b' + 10 * c' + d'"
    have "a = a'" using E 1(5-7) 2(5-7) by arith
    with E have E2: "60 * b + 10 * c + d = 60 * b' + 10 * c' + d'" by simp
    have "b = b'" using E2 1(7) 2(7) by arith
    with E2 have E3: "10 * c + d = 10 * c' + d'" by simp
    have "c = c'" using E3 1(6) 2(6) by arith
    with E3 \<open>a = a'\<close> \<open>b = b'\<close> show "a = a' \<and> b = b' \<and> c = c' \<and> d = d'" by simp
  qed simp
  finally show ?thesis unfolding 1(8) 2(8) .
qed


lemma entry_fields:
  "field (conflictEntryDoc (shiftDoc s)) ''id'' = Oid (shift_id s)"
  "field (conflictEntryDoc (shiftDoc s)) ''date''
     = (case date s of None \<Rightarrow> Null | Some d \<Rightarrow> Dt d)"
  "field (conflictEntryDoc (shiftDoc s)) ''startTime'' = Str (startTime s)"
  "field (conflictEntryDoc (shiftDoc s)) ''endTime'' = Str (endTime s)"
  by (simp_all add: conflictEntryDoc_def shiftDoc_def field_def split: option.splits)

lemma dateOnly_same_day:
  assumes "d1 mod 86400000 = 0" and "d2 mod 86400000 = 0"
  shows "toDateString tz d1 = toDateString tz d2 \<longleftrightarrow> d1 = d2"
proof -
  from assms obtain k1 k2 where k: "d1 = 86400000 * k1" "d2 = 86400000 * k2"
    by (auto elim!: dvdE simp: mod_eq_0_iff_dvd)
  have "(86400000 * k + tz) div 86400000 = k + tz div 86400000" for k :: int
    by simp
  then show ?thesis
    by (simp add: toDateString_def k)
qed

lemma counterpart_overlaps:
  assumes "dayShift s" and "dayShift other"
  shows "counterpart (conflictEntryDoc (shiftDoc s)) (conflictEntryDoc (shiftDoc other))
         \<longleftrightarrow> shift_id other \<noteq> shift_id s \<and> overlapsWith tz s other"
proof -
  from assms(1) obtain d1 b1 e1 where 1: "date s = Some d1" "clockDate (startTime s) = Some b1"
    "clockDate (endTime s) = Some e1" "d1 mod 86400000 = 0" "b1 < e1"
    by (auto simp: dayShift_def split: option.splits)
  from assms(2) obtain d2 b2 e2 where 2: "date other = Some d2"
    "clockDate (startTime other) = Some b2"
    "clockDate (endTime other) = Some e2" "d2 mod 86400000 = 0" "b2 < e2"
    by (auto simp: dayShift_def split: option.splits)
  have e: "effectiveEnd s = Some e1" "effectiveEnd other = Some e2"
    using 1 2 by (simp_all add: effectiveEnd_def date_lt_Some)
  have ov: "overlapsWith tz s other \<longleftrightarrow> d1 = d2 \<and> b1 < e2 \<and> b2 < e1"
    using 1 2 e dateOnly_same_day [OF 1(4) 2(4), of tz]
    by (simp add: overlapsWith_def Let_def date_lt_Some)
  have le: "m_lte (Str (startTime s)) (Str (startTime other)) \<longleftrightarrow> b1 \<le> b2"
    "m_lte (Str (startTime other)) (Str (startTime s)) \<longleftrightarrow> b2 \<le> b1"
    using str_lt_clock [OF 1(2) 2(2)] str_lt_clock [OF 2(2) 1(2)]
      clock_eq [OF 1(2) 2(2)] clock_eq [OF 2(2) 1(2)]
    by (auto simp: m_lte_def)
  have gt: "m_gt (Str (endTime s)) (Str (startTime other)) \<longleftrightarrow> b2 < e1"
    "m_gt (Str (endTime other)) (Str (startTime s)) \<longleftrightarrow> b1 < e2"
    using str_lt_clock [OF 2(2) 1(3)] str_lt_clock [OF 1(2) 2(3)]
    by (simp_all add: m_gt_def)
  have "counterpart (conflictEntryDoc (shiftDoc s)) (conflictEntryDoc (shiftDoc other))
          \<longleftrightarrow> shift_id s \<noteq> shift_id other \<and> d1 = d2
              \<and> ((b1 \<le> b2 \<and> b2 < e1) \<or> (b2 \<le> b1 \<and> b1 < e2))"
    using 1(1) 2(1) le gt by (simp add: counterpart_def entry_fields)
  also have "\<dots> \<longleftrightarrow> shift_id other \<noteq> shift_id s \<and> d1 = d2 \<and> b1 < e2 \<and> b2 < e1"
    using 1(5) 2(5) by auto
  finally show ?thesis using ov by simp
qed

lemma shiftDoc_assignee:
  "field (shiftDoc s) ''assignedEmployeeId'' = Oid e \<longleftrightarrow> assignedEmployeeId s = Some e"
  by (simp add: shiftDoc_def field_def split: option.splits)

lemma counterparts_entries:
  assumes "\<forall>x \<in> set S. dayShift x" and "s \<in> set S"
  shows "counterparts (map (\<lambda>x. conflictEntryDoc (shiftDoc x)) S) (conflictEntryDoc (shiftDoc s))
           = length (overlappingOthers tz S s)"
proof -
  have "filter (\<lambda>other. counterpart (conflictEntryDoc (shiftDoc s))
                          (conflictEntryDoc (shiftDoc other))) S
          = filter (\<lambda>other. shift_id other \<noteq> shift_id s \<and> overlapsWith tz s other) S"
    using assms by (intro filter_cong refl counterpart_overlaps) auto
  then show ?thesis
    by (simp add: counterparts_def overlappingOthers_def length_filter_map o_def)
qed

lemma conflicts_entries:
  assumes "\<forall>x \<in> set S. dayShift x"
  shows "filter (\<lambda>sh. counterparts (map (\<lambda>x. conflictEntryDoc (shiftDoc x)) S) sh > 0)
           (map (\<lambda>x. conflictEntryDoc (shiftDoc x)) S)
         = map (\<lambda>x. conflictEntryDoc (shiftDoc x)) (conflictingShifts tz S)"
proof -
  have "filter (\<lambda>s. counterparts (map (\<lambda>x. conflictEntryDoc (shiftDoc x)) S)
                      (conflictEntryDoc (shiftDoc s)) > 0) S
          = filter (\<lambda>s. overlappingOthers tz S s \<noteq> []) S"
    using counterparts_entries [OF assms, of _ tz] by (intro filter_cong refl) simp
  then show ?thesis
    by (simp add: conflictingShifts_def filter_map o_def)
qed

lemma conflict_group_entries:
  assumes "storable d" and "M = filter (conflictMatch start end' loc tm) (shiftColl d)"
    and "g \<in> set (groupBy (\<lambda>p. field (fst p) ''assignedEmployeeId'')
                    (lookupUnwind (employeeColl d) M))"
  shows "\<exists>e. fst g = Oid e
           \<and> map fst (snd g) = map shiftDoc (shiftsOf e M)"
proof -
  let ?key = "\<lambda>p :: doc \<times> doc. field (fst p) ''assignedEmployeeId''"
  let ?J = "lookupUnwind (employeeColl d) M"
  have sub: "set M \<subseteq> set (shiftColl d)" by (auto simp: assms(2))
  have join: "map fst ?J = map shiftDoc M"
    by (rule lookupUnwind_storable [OF assms(1) sub])
  from assms(3) have gm: "(fst g, snd g) \<in> set (groupBy ?key ?J)" by simp
  from groupBy_key_mem [OF gm] obtain p where p: "p \<in> set ?J" "?key p = fst g" by auto
  from p(1) have "fst p \<in> set (map fst ?J)" by simp
  then obtain s0 where s0: "s0 \<in> set M" "fst p = shiftDoc s0"
    unfolding join by auto
  from s0(1) sub assms(1) obtain e where e: "assignedEmployeeId s0 = Some e"
    by (auto simp: storable_def list_all_iff list_ex_iff)
  then have k: "fst g = Oid e"
    using p(2) s0(2) shiftDoc_assignee [of s0 e] by simp
  have "map fst (snd g) = map fst (filter (\<lambda>p. ?key p = fst g) ?J)"
    using groupBy_filter [OF gm] by simp
  also have "\<dots> = filter (\<lambda>x. field x ''assignedEmployeeId'' = fst g) (map fst ?J)"
    by (simp add: filter_map o_def)
  also have "\<dots> = map shiftDoc (filter (\<lambda>s. field (shiftDoc s) ''assignedEmployeeId'' = fst g) M)"
    unfolding join by (simp add: filter_map o_def)
  also have "\<dots> = map shiftDoc (shiftsOf e M)"
    by (simp add: k shiftDoc_assignee shiftsOf_def)
  finally show ?thesis using k by blast
qed


lemma conflict_row_group:
  assumes "row \<in> set (conflictPipeline emps ss start end' loc tm)"
  shows "\<exists>g \<in> set (groupBy (\<lambda>p. field (fst p) ''assignedEmployeeId'')
                     (lookupUnwind emps (filter (conflictMatch start end' loc tm) ss))).
           row = addConflictCount (addConflicts (conflictGroup g))"
  using assms by (auto simp: conflictPipeline_def set_sortBy)

lemma conflict_rows_complete:
  assumes "storable d" and "\<forall>s \<in> set M. dayShift s"
    and "M = filter (conflictMatch start end' loc tm) (shiftColl d)"
    and "conflictingShifts tz (shiftsOf e M) \<noteq> []"
  shows "\<exists>row \<in> set (conflictPipeline (employeeColl d) (shiftColl d) start end' loc tm).
           field (cr_doc row) ''_id'' = Oid e"
proof -
  let ?key = "\<lambda>p :: doc \<times> doc. field (fst p) ''assignedEmployeeId''"
  let ?J = "lookupUnwind (employeeColl d) M"
  let ?S = "shiftsOf e M"
  let ?entry = "\<lambda>s. conflictEntryDoc (shiftDoc s)"
  from assms(4) obtain s where s: "s \<in> set ?S" "overlappingOthers tz ?S s \<noteq> []"
    by (auto simp: conflictingShifts_def filter_empty_conv)
  from s(2) obtain other where o: "other \<in> set ?S" "shift_id other \<noteq> shift_id s"
    by (auto simp: overlappingOthers_def filter_empty_conv)
  from o(2) have "s \<noteq> other" by auto
  from two_members [OF s(1) o(1) this] have len: "2 \<le> length ?S" .
  have sub: "set M \<subseteq> set (shiftColl d)" by (auto simp: assms(3))
  have join: "map fst ?J = map shiftDoc M"
    by (rule lookupUnwind_storable [OF assms(1) sub])
  from s(1) have sM: "s \<in> set M" "assignedEmployeeId s = Some e"
    by (auto simp: shiftsOf_def)
  then have "shiftDoc s \<in> set (map fst ?J)" unfolding join by simp
  then obtain p where p: "p \<in> set ?J" "fst p = shiftDoc s" by auto
  then have "Oid e \<in> ?key ` set ?J"
    using sM(2) shiftDoc_assignee [of s e] by force
  from groupBy_complete [OF this] obtain ms where g: "(Oid e, ms) \<in> set (groupBy ?key ?J)"
    by blast
  from conflict_group_entries [OF assms(1) assms(3) g]
  have ms: "map fst ms = map shiftDoc ?S" by auto
  then have lms: "length ms = length ?S"
    by (metis length_map)
  have day: "\<forall>x \<in> set ?S. dayShift x"
    using assms(2) by (auto simp: shiftsOf_def)
  let ?r0 = "conflictGroup (Oid e, ms)"
  have "field (cr_doc ?r0) ''totalShifts'' = Num (rat_of_nat (length ?S))"
    using m_sum_ones [of "map fst ms"] lms
    by (simp add: conflictGroup_def Let_def field_Cons o_def)
  with len have pass1: "m_gt (field (cr_doc ?r0) ''totalShifts'') (Num 1)"
    by (simp add: m_gt_def)
  have sh: "cr_shifts ?r0 = map ?entry ?S"
    by (simp add: conflictGroup_def Let_def ms o_def)
  have "cr_conflicts (addConflicts ?r0) = map ?entry (conflictingShifts tz ?S)"
    unfolding addConflicts_def using conflicts_entries [OF day, of tz] by (simp add: sh)
  with assms(4) have pass2: "cr_conflicts (addConflicts ?r0) \<noteq> []" by simp
  have "addConflictCount (addConflicts ?r0)
          \<in> set (conflictPipeline (employeeColl d) (shiftColl d) start end' loc tm)"
    using g pass1 pass2
    by (auto simp: conflictPipeline_def set_sortBy assms(3) intro!: image_eqI)
  moreover have "field (cr_doc (addConflictCount (addConflicts ?r0))) ''_id'' = Oid e"
    by (simp add: addConflictCount_def addConflicts_def conflictGroup_def Let_def
                  field_setField field_Cons)
  ultimately show ?thesis by blast
qed

text \<open>
  C4 as stated fails: three mutually overlapping shifts of one employee have two
  counterparts each, six in sum, and the report counts 3 conflicts.
\<close>

theorem conflictCount_three_mutual_counterexample:
  "map counterpartSum
     (conflictPipeline [exEmployee 7 40]
        [exShift 1 1705276800000 ''09:00'' ''17:00'' (Some 7),
         exShift 2 1705276800000 ''10:00'' ''18:00'' (Some 7),
         exShift 3 1705276800000 ''11:00'' ''19:00'' (Some 7)]
        1705276800000 1705276800000 None None)
     = [6]
   \<and> totalConflicts
       (conflictPipeline [exEmployee 7 40]
          [exShift 1 1705276800000 ''09:00'' ''17:00'' (Some 7),
           exShift 2 1705276800000 ''10:00'' ''18:00'' (Some 7),
           exShift 3 1705276800000 ''11:00'' ''19:00'' (Some 7)]
          1705276800000 1705276800000 None None)
     = Some 3"
  by code_simp

text \<open>
  C4, amended: in a store where every shift is assigned to a stored employee and every
  matched shift has a date-only date and a valid interval that ends after it starts on
  the same day, each row of the conflict report is for one employee and holds the matched shifts
  of that employee; the counterpart count of a shift is the number of other shifts of the
  set that overlap it (4.2); \<open>conflicts\<close> holds the shifts with at least one such
  counterpart and \<open>conflictCount\<close> is their number, which is at most the sum of the
  counterpart counts; every employee with such a shift has a row; and
  \<open>totalConflicts\<close> is the sum of the \<open>conflictCount\<close>s of the rows.
\<close>

theorem conflictCount_counts_overlapping_shifts:
  assumes "storable d" and "\<forall>s \<in> set M. dayShift s"
    and "M = filter (conflictMatch start end' loc tm) (shiftColl d)"
    and "rows = conflictPipeline (employeeColl d) (shiftColl d) start end' loc tm"
  shows "(\<forall>row \<in> set rows. \<exists>e.
            field (cr_doc row) ''_id'' = Oid e
          \<and> cr_shifts row = map (\<lambda>s. conflictEntryDoc (shiftDoc s)) (shiftsOf e M)
          \<and> map (counterparts (cr_shifts row)) (cr_shifts row)
              = map (\<lambda>s. length (overlappingOthers tz (shiftsOf e M) s)) (shiftsOf e M)
          \<and> cr_conflicts row
              = map (\<lambda>s. conflictEntryDoc (shiftDoc s)) (conflictingShifts tz (shiftsOf e M))
          \<and> field (cr_doc row) ''conflictCount''
              = Num (rat_of_nat (length (conflictingShifts tz (shiftsOf e M))))
          \<and> length (conflictingShifts tz (shiftsOf e M)) \<le> counterpartSum row)
       \<and> (\<forall>e. conflictingShifts tz (shiftsOf e M) \<noteq> [] \<longrightarrow>
              (\<exists>row \<in> set rows. field (cr_doc row) ''_id'' = Oid e))
       \<and> totalConflicts rows
           = Some (rat_of_nat (sum_list (map (\<lambda>row. length (cr_conflicts row)) rows)))"
proof -
  have each: "\<exists>e.
            field (cr_doc row) ''_id'' = Oid e
          \<and> cr_shifts row = map (\<lambda>s. conflictEntryDoc (shiftDoc s)) (shiftsOf e M)
          \<and> map (counterparts (cr_shifts row)) (cr_shifts row)
              = map (\<lambda>s. length (overlappingOthers tz (shiftsOf e M) s)) (shiftsOf e M)
          \<and> cr_conflicts row
              = map (\<lambda>s. conflictEntryDoc (shiftDoc s)) (conflictingShifts tz (shiftsOf e M))
          \<and> field (cr_doc row) ''conflictCount''
              = Num (rat_of_nat (length (conflictingShifts tz (shiftsOf e M))))
          \<and> length (conflictingShifts tz (shiftsOf e M)) \<le> counterpartSum row"
    if "row \<in> set rows" for row
  proof -
    from that conflict_row_group [of row "employeeColl d" "shiftColl d" start end' loc tm]
    obtain g where g: "g \<in> set (groupBy (\<lambda>p. field (fst p) ''assignedEmployeeId'')
                                 (lookupUnwind (employeeColl d) M))"
      and row: "row = addConflictCount (addConflicts (conflictGroup g))"
      unfolding assms(3,4) by blast
    from conflict_group_entries [OF assms(1) assms(3) g]
    obtain e where k: "fst g = Oid e" and ms: "map fst (snd g) = map shiftDoc (shiftsOf e M)"
      by blast
    let ?S = "shiftsOf e M"
    let ?entry = "\<lambda>s. conflictEntryDoc (shiftDoc s)"
    have day: "\<forall>x \<in> set ?S. dayShift x"
      using assms(2) by (auto simp: shiftsOf_def)
    have id: "field (cr_doc row) ''_id'' = Oid e"
      by (simp add: row addConflictCount_def addConflicts_def conflictGroup_def Let_def
                    field_setField field_Cons k)
    have sh: "cr_shifts row = map ?entry ?S"
      by (simp add: row addConflictCount_def addConflicts_def conflictGroup_def Let_def ms o_def)
    have cp: "map (counterparts (cr_shifts row)) (cr_shifts row)
              = map (\<lambda>s. length (overlappingOthers tz ?S s)) ?S"
      unfolding sh using counterparts_entries [OF day, of _ tz] by (simp add: o_def)
    have "cr_conflicts row = filter (\<lambda>sh. counterparts (cr_shifts row) sh > 0) (cr_shifts row)"
      by (simp add: row addConflictCount_def addConflicts_def)
    then have cf: "cr_conflicts row = map ?entry (conflictingShifts tz ?S)"
      unfolding sh by (simp only: conflicts_entries [OF day])
    have cc: "field (cr_doc row) ''conflictCount''
                = Num (rat_of_nat (length (conflictingShifts tz ?S)))"
      using cf by (simp add: row addConflictCount_def field_setField)
    have "length (cr_conflicts row) \<le> counterpartSum row"
      unfolding \<open>cr_conflicts row = filter (\<lambda>sh. counterparts (cr_shifts row) sh > 0) (cr_shifts row)\<close>
        counterpartSum_def by (rule count_pos_le_sum)
    then have le: "length (conflictingShifts tz ?S) \<le> counterpartSum row"
      by (simp add: cf)
    from id sh cp cf cc le show ?thesis by blast
  qed
  have "\<forall>r \<in> set rows.
      field (cr_doc r) ''conflictCount'' = Num (rat_of_nat (length (cr_conflicts r)))"
  proof
    fix r assume "r \<in> set rows"
    from each [OF this] show "field (cr_doc r) ''conflictCount''
        = Num (rat_of_nat (length (cr_conflicts r)))"
      by auto
  qed
  from foldl_js_add [OF this, of 0]
  have total: "totalConflicts rows
       = Some (rat_of_nat (sum_list (map (\<lambda>row. length (cr_conflicts row)) rows)))"
    by (simp add: totalConflicts_def)
  have complete: "\<exists>row \<in> set rows. field (cr_doc row) ''_id'' = Oid e"
    if "conflictingShifts tz (shiftsOf e M) \<noteq> []" for e
    unfolding assms(4) by (rule conflict_rows_complete [OF assms(1) assms(2) assms(3) that])
  from each complete total show ?thesis by blast
qed

theorem conflictCount_counts_overlapping_shifts_witness:
  "length (conflictingShifts 0
     (shiftsOf 7 [exShift 1 1705276800000 ''09:00'' ''17:00'' (Some 7),
                  exShift 2 1705276800000 ''16:00'' ''20:00'' (Some 7)])) = 2
   \<and> map counterpartSum
       (conflictPipeline [exEmployee 7 40]
          [exShift 1 1705276800000 ''09:00'' ''17:00'' (Some 7),
           exShift 2 1705276800000 ''16:00'' ''20:00'' (Some 7)]
          1705276800000 1705276800000 None None)
     = [2]
   \<and> totalConflicts
       (conflictPipeline [exEmployee 7 40]
          [exShift 1 1705276800000 ''09:00'' ''17:00'' (Some 7),
           exShift 2 1705276800000 ''16:00'' ''20:00'' (Some 7)]
          1705276800000 1705276800000 None None)
     = Some 2"
proof -
  let ?ss = "[exShift 1 1705276800000 ''09:00'' ''17:00'' (Some 7),
              exShift 2 1705276800000 ''16:00'' ''20:00'' (Some 7)]"
  have st: "storable (exDb ?ss)" by code_simp
  have day: "\<forall>s \<in> set ?ss. dayShift s" by code_simp
  have m: "?ss = filter (conflictMatch 1705276800000 1705276800000 None None)
                   (shiftColl (exDb ?ss))"
    by code_simp
  have rows: "conflictPipeline [exEmployee 7 40] ?ss 1705276800000 1705276800000 None None
                = conflictPipeline (employeeColl (exDb ?ss)) (shiftColl (exDb ?ss))
                    1705276800000 1705276800000 None None"
    by (simp add: exDb_def)
  have len: "length (conflictingShifts 0 (shiftsOf 7 ?ss)) = 2" by code_simp
  have sums: "map counterpartSum
       (conflictPipeline [exEmployee 7 40] ?ss 1705276800000 1705276800000 None None) = [2]"
    by code_simp
  have lens: "map (\<lambda>r. length (cr_conflicts r))
       (conflictPipeline [exEmployee 7 40] ?ss 1705276800000 1705276800000 None None) = [2]"
    by code_simp
  from conflictCount_counts_overlapping_shifts [OF st day m rows, of 0]
  have "totalConflicts
          (conflictPipeline [exEmployee 7 40] ?ss 1705276800000 1705276800000 None None)
        = Some (rat_of_nat (sum_list (map (\<lambda>row. length (cr_conflicts row))
            (conflictPipeline [exEmployee 7 40] ?ss 1705276800000 1705276800000 None None))))"
    by blast
  with lens have "totalConflicts
          (conflictPipeline [exEmployee 7 40] ?ss 1705276800000 1705276800000 None None)
        = Some 2"
    by simp
  with len sums show ?thesis by blast
qed

section \<open>Workload report\<close>

text \<open>The document that \<open>$group\<close> hands to \<open>$addFields\<close> has no average yet.\<close>

lemma workloadGroup_no_average:
  "field (workloadGroup g) ''averageHoursPerWeek'' = Missing"
  by (simp add: workloadGroup_def field_def Let_def)

lemma workloadAddFields_utilization:
  assumes "workloadAddFields start end' (workloadGroup g) = Inr d'"
  shows "field d' ''utilizationPercentage'' = Null"
  using assms workloadGroup_no_average [of g]
  by (auto simp: workloadAddFields_def bindE_def m_divide_def m_multiply_def isNullish_def
                 field_setField split: sum.splits)

lemma weeklyDivisor_value:
  "weeklyDivisor start end' = Inr (Num (rat_of_int \<lceil>rat_of_int (end' - start) / 604800000\<rceil>))"
  by (simp add: weeklyDivisor_def bindE_def m_subtract_def m_divide_def m_ceil_def isNullish_def)

lemma weeklyDivisor_zero_iff:
  assumes "start \<le> end'"
  shows "weeklyDivisor start end' = Inr (Num 0) \<longleftrightarrow> start = end'"
proof -
  have "\<lceil>rat_of_int (end' - start) / 604800000\<rceil> = 0 \<longleftrightarrow> end' - start = 0"
  proof
    assume "\<lceil>rat_of_int (end' - start) / 604800000\<rceil> = 0"
    moreover have "rat_of_int (end' - start) / 604800000
                     \<le> rat_of_int \<lceil>rat_of_int (end' - start) / 604800000\<rceil>"
      by (rule le_of_int_ceiling)
    ultimately have "rat_of_int (end' - start) / 604800000 \<le> 0"
      by simp
    then have "rat_of_int (end' - start) \<le> 0"
      by (simp add: divide_le_0_iff)
    then have "end' - start \<le> 0"
      by (simp only: of_int_le_0_iff)
    with assms show "end' - start = 0" by simp
  qed simp
  then show ?thesis by (auto simp: weeklyDivisor_value)
qed

text \<open>
  C8: employee 7 has \<open>maxHoursPerWeek = 0\<close> and one shift in a range of seven days.
  The row has \<open>averageHoursPerWeek = 0\<close>, \<open>utilizationPercentage = null\<close> and
  \<open>adjustedUtilizationPercentage = 0\<close>.
\<close>

theorem workload_utilization_is_null:
  "getWorkloadAnalytics
     \<lparr>shiftColl = [exShift 1 1705276800000 ''09:00'' ''17:00'' (Some 7)],
      employeeColl = [exEmployee 7 0], timeOffColl = []\<rparr>
     1705276800000 1705881600000 None None None
   = Inr [\<lparr>wl_doc =
             [(''_id'', Oid 7), (''employeeRole'', Str ''employee''),
              (''maxHoursPerWeek'', Num 0), (''totalShifts'', Num 1),
              (''totalHours'', Num 0), (''averageShiftDuration'', Null),
              (''overnightShifts'', Num 0), (''weekendShifts'', Num 0),
              (''averageHoursPerWeek'', Num 0),
              (''utilizationPercentage'', Null)],
            totalTimeOffDays = 0, adjustedUtilizationPercentage = Some 0\<rparr>]"
  by code_simp

text \<open>
  C9: for the single-day range with start and end 2024-01-15 the weekly divisor is 0,
  and with one assigned shift on that day the report fails with the server's
  division error.
\<close>

theorem workload_single_day_divides_by_zero:
  "weeklyDivisor 1705276800000 1705276800000 = Inr (Num 0)
   \<and> getWorkloadAnalytics
       \<lparr>shiftColl = [exShift 1 1705276800000 ''09:00'' ''17:00'' (Some 7)],
        employeeColl = [exEmployee 7 40], timeOffColl = []\<rparr>
       1705276800000 1705276800000 None None None
     = Inl (MongoServerError ''can't $divide by zero'')"
  by code_simp

end
